theory Spec2Isabelle
  imports Main "HOL-Library.Word" "HOL-Library.AList"
begin

section \<open>Values shared by the services\<close>

text \<open>
  Byte arrays (\<open>Uint8Array\<close>, \<open>[]byte\<close>) are lists of 8-bit words. Untyped JSON values,
  as they arrive in a message or a request body, are a datatype; an object is the list
  of its properties. A property access on a value that is not an object, or of a key
  that is absent, is \<open>undefined\<close> (\<open>None\<close>).
\<close>

type_synonym bytes = "8 word list"
type_synonym peer_id = string

datatype json =
    JNull
  | JBool bool
  | JNum int
  | JStr string
  | JArr "json list"
  | JObj "(string \<times> json) list"

fun field :: "json \<Rightarrow> string \<Rightarrow> json option" where
  "field (JObj kvs) k = map_of kvs k"
| "field _ k = None"

fun str_field :: "json \<Rightarrow> string \<Rightarrow> string option" where
  "str_field j k = (case field j k of Some (JStr s) \<Rightarrow> Some s | _ \<Rightarrow> None)"

text \<open>
  A diary entry: \<open>{id, content, timestamp, author}\<close> in both services. The timestamp is
  the instant, a number of milliseconds in JavaScript and a \<open>time.Time\<close> in Go.
  \<open>entry_json\<close> is the JSON value of an entry in the Node.js service.
\<close>

record entry =
  entry_id :: int
  content :: string
  timestamp :: int
  author :: string

definition entry_json :: "entry \<Rightarrow> json" where
  "entry_json e = JObj [(''id'', JNum (entry_id e)), (''content'', JStr (content e)),
     (''timestamp'', JNum (timestamp e)), (''author'', JStr (author e))]"

subsection \<open>The source of randomness\<close>

text \<open>
  \<open>nacl.randomBytes\<close> and \<open>rand.Read\<close> draw from the operating system. The state of the
  source is the infinite tape of the bytes it has not handed out yet; drawing \<open>n\<close> bytes
  takes the first \<open>n\<close> and moves the tape on.
\<close>

type_synonym rng = "nat \<Rightarrow> 8 word"

definition randomBytes :: "nat \<Rightarrow> rng \<Rightarrow> bytes \<times> rng" where
  "randomBytes n g = (map g [0..<n], (\<lambda>i. g (i + n)))"

subsection \<open>Library primitives\<close>

text \<open>
  The functions of tweetnacl, tweetnacl-util and the JavaScript runtime that the service
  calls. They are parameters of the model. A primitive that can throw returns an option,
  \<open>None\<close> standing for the exception: \<open>nacl.sign.detached.verify\<close> and \<open>nacl.box\<close>
  throw on a key, signature or nonce of the wrong size. \<open>naclUtil.decodeBase64\<close> is
  handed whatever value the caller has, a string or not, \<open>undefined\<close> (\<open>None\<close>)
  included; what it makes of a value that is not a string, and on which values it
  throws, is the library's affair.
\<close>

record key_pair =
  publicKey :: bytes
  secretKey :: bytes

record prims =
  decodeBase64 :: "json option \<Rightarrow> bytes option"
  encodeBase64 :: "bytes \<Rightarrow> string"
  decodeUTF8 :: "string \<Rightarrow> bytes"
  JSON_stringify :: "json \<Rightarrow> string"
  sign_detached_verify :: "bytes \<Rightarrow> bytes \<Rightarrow> bytes \<Rightarrow> bool option"
  box :: "bytes \<Rightarrow> bytes \<Rightarrow> bytes \<Rightarrow> bytes \<Rightarrow> bytes option"
  hash :: "bytes \<Rightarrow> bytes"
  sign_keyPair_fromSeed :: "bytes \<Rightarrow> key_pair"
  box_keyPair_fromSecretKey :: "bytes \<Rightarrow> key_pair"
  toISOString :: "int \<Rightarrow> string"

text \<open>\<open>nacl.box.nonceLength\<close>, the constant \<open>crypto_box_NONCEBYTES\<close> of tweetnacl.\<close>

definition box_nonceLength :: nat where
  "box_nonceLength = 24"

section \<open>The Node.js service (service/trust-diary-service.js)\<close>

subsection \<open>State\<close>

record identity =
  keyPair :: key_pair
  boxKeyPair :: key_pair

record trusted_info =
  boxPublicKey :: string
  name :: string
  permissions :: "string list"
  trustedAt :: int

datatype conn_state = Challenging | Untrusted | Authenticated

text \<open>
  A connection object. \<open>publicKey\<close>, \<open>permissions\<close> and \<open>name\<close> are absent until
  \<open>handleAuthResponse\<close> sets them.
\<close>

record connection =
  state :: conn_state
  challenge :: string
  joinedAt :: int
  conn_publicKey :: "string option"
  conn_permissions :: "string list option"
  conn_name :: "string option"

text \<open>The payload \<open>{nonce, encrypted}\<close> that \<open>encryptForPeer\<close> returns.\<close>

record encrypted_msg =
  nonce :: string
  encrypted :: string

record challenge_msg =
  cm_challenge :: string
  servicePublicKey :: string
  serviceBoxPublicKey :: string

text \<open>
  The payload of a call of one of the room's action senders. The service passes the
  payload only: no call names a target peer, so each goes to every peer that is in the
  room at that moment (SERVICE.md: only the intended reader can decrypt, even if others
  are in the room).
\<close>

datatype action =
    SendChallenge challenge_msg
  | SendEntry encrypted_msg
  | SendAnnouncement encrypted_msg

text \<open>
  A file of the data directory, up to \<open>JSON.parse\<close>: text that \<open>JSON.parse\<close> reads as a
  value (what \<open>JSON.stringify\<close> of that value writes), or text on which it throws.
\<close>

datatype file_content = JsonText json | Unparsable string

text \<open>
  The disk: the files of the data directory, and whether a write succeeds
  (\<open>fs.writeFile\<close> rejects otherwise).
\<close>

record disk =
  files :: "string \<rightharpoonup> file_content"
  writable :: bool

text \<open>
  The exceptions that leave a function of the service: a \<open>TypeError\<close> on reading a key
  of a null identity, the exception of \<open>encryptForPeer\<close> (whichever of its calls threw),
  a rejected \<open>fs.writeFile\<close>.
\<close>

datatype exn = TypeError | EncryptError | IOError

definition readFile :: "disk \<Rightarrow> string \<Rightarrow> file_content option" where
  "readFile d p = files d p"

definition writeFile :: "disk \<Rightarrow> string \<Rightarrow> file_content \<Rightarrow> disk option" where
  "writeFile d p f = (if writable d then Some (d\<lparr>files := (files d)(p \<mapsto> f)\<rparr>) else None)"

text \<open>
  The service object. The two \<open>Map\<close>s are association lists in insertion order:
  \<open>Map.set\<close> on a present key replaces the value in place and on a new key appends
  (\<open>AList.update\<close>), \<open>forEach\<close> visits the list front to back. \<open>sent\<close> is the history
  of the calls of the room's action senders, oldest first: the payload, and the peers
  that were in the room, to all of whom it went.
\<close>

record service =
  roomSalt :: string
  identity :: "identity option"
  trustedKeys :: "(string \<times> trusted_info) list"
  entries :: "entry list"
  connections :: "(peer_id \<times> connection) list"
  rand :: rng
  fs :: disk
  sent :: "(action \<times> peer_id list) list"

text \<open>
  The peers of the room, as the service has them: \<open>handlePeerJoin\<close> enters a peer in
  \<open>connections\<close>, the room's leave event deletes it. \<open>received\<close> is what has been sent to
  a peer so far.
\<close>

definition room :: "service \<Rightarrow> peer_id list" where
  "room s = map fst (connections s)"


subsection \<open>Authentication of a peer\<close>

definition getPublicKeyString :: "prims \<Rightarrow> service \<Rightarrow> string option" where
  "getPublicKeyString P s =
     (case identity s of None \<Rightarrow> None
      | Some i \<Rightarrow> Some (encodeBase64 P (publicKey (keyPair i))))"

definition getBoxPublicKeyString :: "prims \<Rightarrow> service \<Rightarrow> string option" where
  "getBoxPublicKeyString P s =
     (case identity s of None \<Rightarrow> None
      | Some i \<Rightarrow> Some (encodeBase64 P (publicKey (boxKeyPair i))))"

text \<open>
  \<open>encryptForPeer\<close>: the nonce is drawn before the arguments of \<open>nacl.box\<close> that can
  throw are evaluated, so the tape moves on also when the call throws (\<open>None\<close>).
\<close>

definition encryptForPeer ::
  "prims \<Rightarrow> json \<Rightarrow> string \<Rightarrow> service \<Rightarrow> encrypted_msg option \<times> service" where
  "encryptForPeer P data peerBoxPublicKey s =
     (let message = decodeUTF8 P (JSON_stringify P data);
          (nonce, g) = randomBytes box_nonceLength (rand s);
          s' = s\<lparr>rand := g\<rparr>
      in case decodeBase64 P (Some (JStr peerBoxPublicKey)) of
           None \<Rightarrow> (None, s')
         | Some pk \<Rightarrow>
             (case identity s of
                None \<Rightarrow> (None, s')
              | Some i \<Rightarrow>
                  (case box P message nonce pk (secretKey (boxKeyPair i)) of
                     None \<Rightarrow> (None, s')
                   | Some c \<Rightarrow>
                       (Some \<lparr>nonce = encodeBase64 P nonce, encrypted = encodeBase64 P c\<rparr>,
                        s'))))"

text \<open>
  The \<open>forEach\<close> of \<open>sendEntriesToPeer\<close>: each entry is encrypted and sent in turn; an
  exception of \<open>encryptForPeer\<close> ends the loop, what was sent before stays sent. The
  second component is the exception, if any.
\<close>

fun sendEach :: "prims \<Rightarrow> string \<Rightarrow> entry list \<Rightarrow> service \<Rightarrow> service \<times> exn option" where
  "sendEach P bpk [] s = (s, None)"
| "sendEach P bpk (e # es) s =
     (case encryptForPeer P (entry_json e) bpk s of
        (None, s') \<Rightarrow> (s', Some EncryptError)
      | (Some m, s') \<Rightarrow> sendEach P bpk es (s'\<lparr>sent := sent s' @ [(SendEntry m, room s')]\<rparr>))"

definition sendEntriesToPeer :: "prims \<Rightarrow> peer_id \<Rightarrow> service \<Rightarrow> service \<times> exn option" where
  "sendEntriesToPeer P peerId s =
     (case map_of (connections s) peerId of
        None \<Rightarrow> (s, None)
      | Some conn \<Rightarrow>
          if state conn \<noteq> Authenticated then (s, None)
          else (case conn_publicKey conn of
                  None \<Rightarrow> (s, None)
                | Some k \<Rightarrow>
                    (case map_of (trustedKeys s) k of
                       None \<Rightarrow> (s, None)
                     | Some trustedInfo \<Rightarrow> sendEach P (boxPublicKey trustedInfo) (entries s) s)))"

definition handlePeerJoin :: "prims \<Rightarrow> int \<Rightarrow> peer_id \<Rightarrow> service \<Rightarrow> service \<times> exn option" where
  "handlePeerJoin P now peerId s =
     (let (c, g) = randomBytes 32 (rand s);
          s' = s\<lparr>rand := g,
                 connections := AList.update peerId
                   \<lparr>state = Challenging, challenge = encodeBase64 P c, joinedAt = now,
                    conn_publicKey = None, conn_permissions = None, conn_name = None\<rparr>
                   (connections s)\<rparr>
      in case (getPublicKeyString P s', getBoxPublicKeyString P s') of
           (Some pk, Some bpk) \<Rightarrow>
             (s'\<lparr>sent := sent s' @ [(SendChallenge
                    \<lparr>cm_challenge = encodeBase64 P c, servicePublicKey = pk,
                     serviceBoxPublicKey = bpk\<rparr>, room s')]\<rparr>, None)
         | _ \<Rightarrow> (s', Some TypeError))"

text \<open>
  \<open>trustedKeys.get(v)\<close> for an untyped value: the keys of the store are strings, and a
  \<open>Map\<close> finds a key only under the very same value, so a value that is not a string
  finds nothing.
\<close>

definition trusted_lookup :: "service \<Rightarrow> json option \<Rightarrow> trusted_info option" where
  "trusted_lookup s v = (case v of Some (JStr k) \<Rightarrow> map_of (trustedKeys s) k | _ \<Rightarrow> None)"

text \<open>
  \<open>handleAuthResponse\<close>. Everything after the guard runs inside \<open>try\<close>: an exception
  (reading a property of \<open>null\<close>, an exception of \<open>decodeBase64\<close>, a signature or key of
  the wrong size, an exception of \<open>sendEntriesToPeer\<close>) is caught and logged, and the
  handler returns with the state as it is at that point. \<open>data.signature\<close> and
  \<open>data.publicKey\<close> go to \<open>decodeBase64\<close> as they are; \<open>data.publicKey\<close>, as it is, is
  then the key that is looked up in the trust store, and, where the store has it (it is
  a string then), the key that the connection records.
\<close>

definition handleAuthResponse :: "prims \<Rightarrow> json \<Rightarrow> peer_id \<Rightarrow> service \<Rightarrow> service" where
  "handleAuthResponse P data peerId s =
     (case map_of (connections s) peerId of
        None \<Rightarrow> s
      | Some conn \<Rightarrow>
          if state conn \<noteq> Challenging then s
          else if data = JNull then s
          else
            (case decodeBase64 P (field data ''signature'') of
               None \<Rightarrow> s
             | Some signature \<Rightarrow>
            (case decodeBase64 P (field data ''publicKey'') of
               None \<Rightarrow> s
             | Some pubKey \<Rightarrow>
            (case decodeBase64 P (Some (JStr (challenge conn))) of
               None \<Rightarrow> s
             | Some chal \<Rightarrow>
            (case sign_detached_verify P chal signature pubKey of
               None \<Rightarrow> s
             | Some verified \<Rightarrow>
                 if \<not> verified then s
                 else
                   (case trusted_lookup s (field data ''publicKey'') of
                      None \<Rightarrow>
                        s\<lparr>connections := AList.update peerId
                            (conn\<lparr>state := Untrusted\<rparr>) (connections s)\<rparr>
                    | Some trustedInfo \<Rightarrow>
                        fst (sendEntriesToPeer P peerId
                          (s\<lparr>connections := AList.update peerId
                              (conn\<lparr>state := Authenticated,
                                    conn_publicKey := str_field data ''publicKey'',
                                    conn_permissions := Some (permissions trustedInfo),
                                    conn_name := Some (name trustedInfo)\<rparr>)
                              (connections s)\<rparr>))))))))"

text \<open>
  The check that \<open>handleAuthResponse\<close> makes of a response against the challenge of the
  connection: the three values decode and \<open>nacl.sign.detached.verify\<close> returns true.
\<close>

definition response_verified :: "prims \<Rightarrow> connection \<Rightarrow> json \<Rightarrow> bool" where
  "response_verified P conn data =
     (data \<noteq> JNull
      \<and> (case (decodeBase64 P (field data ''signature''),
                decodeBase64 P (field data ''publicKey''),
                decodeBase64 P (Some (JStr (challenge conn)))) of
            (Some sg, Some pk, Some ch) \<Rightarrow> sign_detached_verify P ch sg pk = Some True
          | _ \<Rightarrow> False))"

subsection \<open>The entry log and the trust store\<close>

definition saveEntries :: "service \<Rightarrow> service option" where
  "saveEntries s =
     map_option (\<lambda>d. s\<lparr>fs := d\<rparr>)
       (writeFile (fs s) ''entries.json'' (JsonText (JArr (map entry_json (entries s)))))"

definition trusted_json :: "string \<times> trusted_info \<Rightarrow> json" where
  "trusted_json kv = JObj [(''publicKey'', JStr (fst kv)),
     (''boxPublicKey'', JStr (boxPublicKey (snd kv))), (''name'', JStr (name (snd kv))),
     (''permissions'', JArr (map JStr (permissions (snd kv)))),
     (''trustedAt'', JNum (trustedAt (snd kv)))]"

definition saveTrustedKeys :: "service \<Rightarrow> service option" where
  "saveTrustedKeys s =
     map_option (\<lambda>d. s\<lparr>fs := d\<rparr>)
       (writeFile (fs s) ''trusted.json'' (JsonText (JArr (map trusted_json (trustedKeys s)))))"

text \<open>
  The log that \<open>loadEntries\<close> creates when \<open>entries.json\<close> cannot be read (the first
  start of the service).
\<close>

definition initialEntries :: "int \<Rightarrow> entry list" where
  "initialEntries now = [\<lparr>entry_id = 1, content = ''Trust Diary Service started'',
     timestamp = now, author = ''Service''\<rparr>]"

text \<open>
  \<open>broadcastEntry\<close>: \<open>connections.forEach\<close>, one encryption and one \<open>sendEntry\<close> for
  each authenticated connection whose key is in the trust store. An exception of
  \<open>encryptForPeer\<close> leaves the loop and the function.
\<close>

fun broadcastEach ::
  "prims \<Rightarrow> entry \<Rightarrow> (peer_id \<times> connection) list \<Rightarrow> service \<Rightarrow> service \<times> exn option" where
  "broadcastEach P e [] s = (s, None)"
| "broadcastEach P e (pc # cs) s =
     (if state (snd pc) = Authenticated then
        (case Option.bind (conn_publicKey (snd pc)) (map_of (trustedKeys s)) of
           None \<Rightarrow> broadcastEach P e cs s
         | Some trustedInfo \<Rightarrow>
             (case encryptForPeer P (entry_json e) (boxPublicKey trustedInfo) s of
                (None, s') \<Rightarrow> (s', Some EncryptError)
              | (Some m, s') \<Rightarrow> broadcastEach P e cs (s'\<lparr>sent := sent s' @ [(SendEntry m, room s')]\<rparr>)))
      else broadcastEach P e cs s)"

definition broadcastEntry :: "prims \<Rightarrow> entry \<Rightarrow> service \<Rightarrow> service \<times> exn option" where
  "broadcastEntry P e s = broadcastEach P e (connections s) s"

text \<open>
  \<open>POST /api/entries\<close>, and the \<open>add_entry\<close> command of the admin WebSocket, which does
  the same to the service. The entry is pushed before \<open>saveEntries\<close> is awaited; when the
  write fails the handler ends there, with the entry in the log and nothing broadcast.
\<close>

definition postEntry :: "prims \<Rightarrow> int \<Rightarrow> string \<Rightarrow> service \<Rightarrow> service \<times> exn option" where
  "postEntry P now c s =
     (let e = \<lparr>entry_id = int (length (entries s)) + 1, content = c, timestamp = now,
                author = ''Admin''\<rparr>;
          s1 = s\<lparr>entries := entries s @ [e]\<rparr>
      in case saveEntries s1 of
           None \<Rightarrow> (s1, Some IOError)
         | Some s2 \<Rightarrow> broadcastEntry P e s2)"

text \<open>
  The body of \<open>POST /api/trusted\<close>. \<open>name || 'Unknown'\<close> and
  \<open>permissions || ['read']\<close> replace a value that is absent or falsy (the empty string
  is; an array, also the empty one, is not).
\<close>

record trust_body =
  tb_publicKey :: string
  tb_boxPublicKey :: string
  tb_name :: "string option"
  tb_permissions :: "string list option"

definition postTrusted :: "int \<Rightarrow> trust_body \<Rightarrow> service \<Rightarrow> service \<times> exn option" where
  "postTrusted now b s =
     (let s1 = s\<lparr>trustedKeys := AList.update (tb_publicKey b)
                 \<lparr>boxPublicKey = tb_boxPublicKey b,
                  name = (case tb_name b of None \<Rightarrow> ''Unknown''
                          | Some n \<Rightarrow> if n = [] then ''Unknown'' else n),
                  permissions = (case tb_permissions b of None \<Rightarrow> [''read''] | Some ps \<Rightarrow> ps),
                  trustedAt = now\<rparr>
                 (trustedKeys s)\<rparr>
      in case saveTrustedKeys s1 of
           None \<Rightarrow> (s1, Some IOError)
         | Some s2 \<Rightarrow> (s2, None))"

definition deleteTrusted :: "string \<Rightarrow> service \<Rightarrow> service \<times> exn option" where
  "deleteTrusted k s =
     (let s1 = s\<lparr>trustedKeys := AList.delete k (trustedKeys s)\<rparr>
      in case saveTrustedKeys s1 of
           None \<Rightarrow> (s1, Some IOError)
         | Some s2 \<Rightarrow> (s2, None))"

subsection \<open>Presence announcements\<close>

fun announceEach ::
  "prims \<Rightarrow> json \<Rightarrow> (string \<times> trusted_info) list \<Rightarrow> service \<Rightarrow> service \<times> exn option" where
  "announceEach P a [] s = (s, None)"
| "announceEach P a (kv # kvs) s =
     (case encryptForPeer P a (boxPublicKey (snd kv)) s of
        (None, s') \<Rightarrow> (s', Some EncryptError)
      | (Some m, s') \<Rightarrow> announceEach P a kvs (s'\<lparr>sent := sent s' @ [(SendAnnouncement m, room s')]\<rparr>))"

definition presenceBroadcast :: "prims \<Rightarrow> int \<Rightarrow> service \<Rightarrow> service \<times> exn option" where
  "presenceBroadcast P now s =
     (case getPublicKeyString P s of
        None \<Rightarrow> (s, Some TypeError)
      | Some pk \<Rightarrow>
          announceEach P
            (JObj [(''type'', JStr ''service_presence''), (''name'', JStr ''Trust Diary Service''),
                   (''timestamp'', JNum now), (''entriesCount'', JNum (int (length (entries s)))),
                   (''publicKey'', JStr pk)])
            (trustedKeys s) s)"

subsection \<open>Identity and room\<close>

text \<open>
  The \<open>try\<close> block of \<open>loadIdentity\<close>: \<open>identity.json\<close> is read, parsed and its four
  keys decoded, each field going to \<open>decodeBase64\<close> as it is. \<open>None\<close> is any exception
  in it: the file is absent, its text does not parse, the value is \<open>null\<close>, or
  \<open>decodeBase64\<close> throws on a field. (The directory itself is not modelled; a failure
  to create it ends in the same \<open>catch\<close> block.)
\<close>

definition readIdentity :: "prims \<Rightarrow> disk \<Rightarrow> identity option" where
  "readIdentity P d =
     (case readFile d ''identity.json'' of
        Some (JsonText stored) \<Rightarrow>
          if stored = JNull then None
          else
            (case (decodeBase64 P (field stored ''publicKey''),
                   decodeBase64 P (field stored ''secretKey''),
                   decodeBase64 P (field stored ''boxPublicKey''),
                   decodeBase64 P (field stored ''boxSecretKey'')) of
               (Some pk, Some sk, Some bpk, Some bsk) \<Rightarrow>
                 Some \<lparr>keyPair = \<lparr>publicKey = pk, secretKey = sk\<rparr>,
                       boxKeyPair = \<lparr>publicKey = bpk, secretKey = bsk\<rparr>\<rparr>
             | _ \<Rightarrow> None)
      | _ \<Rightarrow> None)"

definition identity_json :: "prims \<Rightarrow> int \<Rightarrow> identity \<Rightarrow> json" where
  "identity_json P now i = JObj [
     (''publicKey'', JStr (encodeBase64 P (publicKey (keyPair i)))),
     (''secretKey'', JStr (encodeBase64 P (secretKey (keyPair i)))),
     (''boxPublicKey'', JStr (encodeBase64 P (publicKey (boxKeyPair i)))),
     (''boxSecretKey'', JStr (encodeBase64 P (secretKey (boxKeyPair i)))),
     (''createdAt'', JStr (toISOString P now))]"

text \<open>
  \<open>loadIdentity\<close>. The \<open>catch\<close> block does not look at the exception: it draws a new
  signing key pair and a new box key pair (32 random bytes each) and writes them to
  \<open>identity.json\<close>. Only a failure of that write leaves the function as an exception.
\<close>

definition loadIdentity :: "prims \<Rightarrow> int \<Rightarrow> service \<Rightarrow> service \<times> exn option" where
  "loadIdentity P now s =
     (case readIdentity P (fs s) of
        Some i \<Rightarrow> (s\<lparr>identity := Some i\<rparr>, None)
      | None \<Rightarrow>
          (let (seed1, g1) = randomBytes 32 (rand s);
               (seed2, g2) = randomBytes 32 g1;
               i = \<lparr>keyPair = sign_keyPair_fromSeed P seed1,
                    boxKeyPair = box_keyPair_fromSecretKey P seed2\<rparr>;
               s1 = s\<lparr>identity := Some i, rand := g2\<rparr>
           in case writeFile (fs s1) ''identity.json'' (JsonText (identity_json P now i)) of
                None \<Rightarrow> (s1, Some IOError)
              | Some d \<Rightarrow> (s1\<lparr>fs := d\<rparr>, None)))"

text \<open>\<open>generateRoomId\<close>; \<open>None\<close> is the exception of reading a key of a null identity.\<close>

definition generateRoomId :: "prims \<Rightarrow> service \<Rightarrow> string option" where
  "generateRoomId P s =
     (case getPublicKeyString P s of
        None \<Rightarrow> None
      | Some pk \<Rightarrow>
          Some (take 20 (encodeBase64 P (hash P (decodeUTF8 P (roomSalt s @ '':'' @ pk))))))"

subsection \<open>The service as a transition system\<close>

text \<open>
  What reaches the running service: the room reports a peer joining or leaving, a peer
  sends a \<open>response\<close> or a \<open>challenge\<close> action or an action of another name (the service
  registers a receiver for these two only, so on \<open>request\<close>, \<open>entry\<close>, \<open>announce\<close> or any
  other no code of the service runs), the admin calls the HTTP interface or the
  WebSocket, the presence timer fires. Each event that reads the clock carries the time.
  An exception that leaves a handler ends that handler only; the state is the one reached.
\<close>

datatype event =
    PeerJoin peer_id int
  | PeerLeave peer_id
  | Response json peer_id
  | ChallengeMsg json peer_id
  | OtherAction string json peer_id
  | PostEntry string int
  | AdminAddEntry string int
  | PostTrusted trust_body int
  | DeleteTrusted string
  | Presence int

fun step :: "prims \<Rightarrow> event \<Rightarrow> service \<Rightarrow> service" where
  "step P (PeerJoin peerId now) s = fst (handlePeerJoin P now peerId s)"
| "step P (PeerLeave peerId) s = s\<lparr>connections := AList.delete peerId (connections s)\<rparr>"
| "step P (Response data peerId) s = handleAuthResponse P data peerId s"
| "step P (ChallengeMsg data peerId) s = s"
| "step P (OtherAction a data peerId) s = s"
| "step P (PostEntry c now) s = fst (postEntry P now c s)"
| "step P (AdminAddEntry c now) s = fst (postEntry P now c s)"
| "step P (PostTrusted b now) s = fst (postTrusted now b s)"
| "step P (DeleteTrusted k) s = fst (deleteTrusted k s)"
| "step P (Presence now) s = fst (presenceBroadcast P now s)"




subsection \<open>What an encrypted payload is\<close>

text \<open>
  The \<open>j\<close>-th nonce that a loop of encryptions draws from the tape \<open>g\<close>: bytes
  \<open>24 j\<close> to \<open>24 j + 23\<close>.
\<close>

definition nth_nonce :: "rng \<Rightarrow> nat \<Rightarrow> bytes" where
  "nth_nonce g j = map g [j * box_nonceLength ..< Suc j * box_nonceLength]"




text \<open>
  The common shape of the loops of \<open>sendEntriesToPeer\<close>, \<open>broadcastEntry\<close> and the
  presence broadcast: the jobs are encrypted and sent in turn.
\<close>

fun sendAll ::
  "prims \<Rightarrow> (encrypted_msg \<Rightarrow> action) \<Rightarrow> (json \<times> string) list \<Rightarrow> service
   \<Rightarrow> service \<times> exn option" where
  "sendAll P mk [] s = (s, None)"
| "sendAll P mk (job # jobs) s =
     (case encryptForPeer P (fst job) (snd job) s of
        (None, s') \<Rightarrow> (s', Some EncryptError)
      | (Some m, s') \<Rightarrow> sendAll P mk jobs (s'\<lparr>sent := sent s' @ [(mk m, room s')]\<rparr>))"


subsection \<open>Notions used to state the properties of the log, the trust store and the identity\<close>

text \<open>The ids of a log are \<open>1, 2, \<dots>\<close> in order, as the service itself numbers them.\<close>

definition ids_sequential :: "entry list \<Rightarrow> bool" where
  "ids_sequential es = (map entry_id es = map int [1..<Suc (length es)])"

text \<open>The record that \<open>POST /api/trusted\<close> stores for a body at time \<open>now\<close>.\<close>

definition stored_info :: "int \<Rightarrow> trust_body \<Rightarrow> trusted_info" where
  "stored_info now b =
     \<lparr>boxPublicKey = tb_boxPublicKey b,
      name = (case tb_name b of None \<Rightarrow> ''Unknown'' | Some n \<Rightarrow> if n = [] then ''Unknown'' else n),
      permissions = (case tb_permissions b of None \<Rightarrow> [''read''] | Some ps \<Rightarrow> ps),
      trustedAt = now\<rparr>"

text \<open>The bytes that \<open>generateRoomId\<close> hashes: the UTF-8 of \<open>salt:base64(publicKey)\<close>.\<close>

definition room_material :: "prims \<Rightarrow> string \<Rightarrow> bytes \<Rightarrow> bytes" where
  "room_material P salt pk = decodeUTF8 P (salt @ '':'' @ encodeBase64 P pk)"

text \<open>The identity that the \<open>catch\<close> block of \<open>loadIdentity\<close> draws from the tape \<open>g\<close>.\<close>

definition fresh_identity :: "prims \<Rightarrow> rng \<Rightarrow> identity" where
  "fresh_identity P g =
     \<lparr>keyPair = sign_keyPair_fromSeed P (fst (randomBytes 32 g)),
      boxKeyPair = box_keyPair_fromSecretKey P (fst (randomBytes 32 (snd (randomBytes 32 g))))\<rparr>"

section \<open>The Go service (go-service/main.go)\<close>

text \<open>
  The calls of the Go libraries. \<open>DecodeString\<close> is
  \<open>base64.StdEncoding.DecodeString\<close> with its error dropped, as every caller does;
  \<open>ed25519.Verify\<close> panics (\<open>None\<close>) on a public key that is not 32 bytes long;
  \<open>Time_MarshalJSON\<close> is the RFC 3339 text that \<open>json.Marshal\<close> writes for a
  \<open>time.Time\<close>, the instant being an integer here.
\<close>

record go_prims =
  DecodeString :: "string \<Rightarrow> bytes"
  EncodeToString :: "bytes \<Rightarrow> string"
  ed25519_Verify :: "bytes \<Rightarrow> bytes \<Rightarrow> bytes \<Rightarrow> bool option"
  sha256_Sum256 :: "bytes \<Rightarrow> bytes"
  Time_MarshalJSON :: "int \<Rightarrow> string"

record TrustedUser =
  tu_PublicKey :: string
  tu_BoxPublicKey :: string
  tu_Name :: string
  tu_Permissions :: "string list option"
  tu_TrustedAt :: int

text \<open>A \<open>Connection\<close> (its fields with the prefix \<open>c_\<close>); a nil \<open>Challenge\<close> is \<open>None\<close>.\<close>

record go_connection =
  c_ID :: string
  c_State :: string
  c_PublicKey :: string
  c_Name :: string
  c_Challenge :: "bytes option"
  c_Authenticated :: bool

text \<open>
  The service. A Go map is a partial function. A data channel is the list of the texts
  sent on it, oldest first, each text as the JSON value that was marshalled; a peer has
  an entry in \<open>dataChannels\<close> from \<open>OnDataChannel\<close> to \<open>OnClose\<close>. The files that the
  handlers write are left out: a failed write is logged and changes nothing else.
\<close>

record go_service =
  go_identity :: identity
  go_roomSalt :: string
  trustedUsers :: "string \<rightharpoonup> TrustedUser"
  go_entries :: "entry list"
  go_connections :: "string \<rightharpoonup> go_connection"
  dataChannels :: "string \<rightharpoonup> json list"
  go_rand :: rng

definition go_str :: "json \<Rightarrow> string \<Rightarrow> string" where
  "go_str msg k = (case str_field msg k of Some v \<Rightarrow> v | None \<Rightarrow> [])"

text \<open>
  What \<open>json.Marshal\<close> writes for a \<open>DiaryEntry\<close> (the fields of the struct in their
  order, the timestamp a string), and the message that carries an entry, which is
  marshalled from a map, whose keys \<open>json.Marshal\<close> writes in sorted order.
\<close>

definition go_entry_json :: "go_prims \<Rightarrow> entry \<Rightarrow> json" where
  "go_entry_json G e = JObj [(''id'', JNum (entry_id e)), (''content'', JStr (content e)),
     (''timestamp'', JStr (Time_MarshalJSON G (timestamp e))), (''author'', JStr (author e))]"

definition entry_msg :: "go_prims \<Rightarrow> entry \<Rightarrow> json" where
  "entry_msg G e = JObj [(''entry'', go_entry_json G e), (''type'', JStr ''entry'')]"

definition SendText :: "string \<Rightarrow> json \<Rightarrow> go_service \<Rightarrow> go_service" where
  "SendText peerID m s =
     (case dataChannels s peerID of
        None \<Rightarrow> s
      | Some log \<Rightarrow> s\<lparr>dataChannels := (dataChannels s)(peerID \<mapsto> log @ [m])\<rparr>)"

definition go_sendEntriesToPeer :: "go_prims \<Rightarrow> string \<Rightarrow> go_service \<Rightarrow> go_service" where
  "go_sendEntriesToPeer G peerID s =
     (case (dataChannels s peerID, go_connections s peerID) of
        (Some dc, Some conn) \<Rightarrow>
          if \<not> c_Authenticated conn then s
          else fold (\<lambda>e. SendText peerID (entry_msg G e)) (go_entries s) s
      | _ \<Rightarrow> s)"

definition go_handleEntryRequest :: "go_prims \<Rightarrow> string \<Rightarrow> go_service \<Rightarrow> go_service" where
  "go_handleEntryRequest G peerID s =
     (case go_connections s peerID of
        None \<Rightarrow> s
      | Some conn \<Rightarrow> if \<not> c_Authenticated conn then s else go_sendEntriesToPeer G peerID s)"

text \<open>
  \<open>handleAuthResponse\<close>. The guard looks at the challenge only, which nothing resets.
  \<open>None\<close> is the panic of \<open>ed25519.Verify\<close>.
\<close>

definition go_handleAuthResponse ::
  "go_prims \<Rightarrow> string \<Rightarrow> json \<Rightarrow> go_service \<Rightarrow> go_service option" where
  "go_handleAuthResponse G peerID msg s =
     (case go_connections s peerID of
        None \<Rightarrow> Some s
      | Some conn \<Rightarrow>
          (case c_Challenge conn of
             None \<Rightarrow> Some s
           | Some ch \<Rightarrow>
               (let sigStr = go_str msg ''signature'';
                    pubKeyStr = go_str msg ''publicKey'';
                    signature = DecodeString G sigStr;
                    pubKey = DecodeString G pubKeyStr
                in case ed25519_Verify G pubKey ch signature of
                     None \<Rightarrow> None
                   | Some ok \<Rightarrow>
                       if \<not> ok then Some s
                       else (case trustedUsers s pubKeyStr of
                               None \<Rightarrow>
                                 Some (s\<lparr>go_connections := (go_connections s)
                                          (peerID \<mapsto> conn\<lparr>c_State := ''untrusted''\<rparr>)\<rparr>)
                             | Some trusted \<Rightarrow>
                                 Some (go_sendEntriesToPeer G peerID
                                   (s\<lparr>go_connections := (go_connections s)
                                        (peerID \<mapsto> conn\<lparr>c_State := ''authenticated'',
                                           c_PublicKey := pubKeyStr, c_Name := tu_Name trusted,
                                           c_Authenticated := True\<rparr>)\<rparr>))))))"

text \<open>The signature check of \<open>handleAuthResponse\<close>, against the stored challenge.\<close>

definition go_response_verified :: "go_prims \<Rightarrow> go_connection \<Rightarrow> json \<Rightarrow> bool" where
  "go_response_verified G conn msg =
     (case c_Challenge conn of
        None \<Rightarrow> False
      | Some ch \<Rightarrow>
          ed25519_Verify G (DecodeString G (go_str msg ''publicKey'')) ch
            (DecodeString G (go_str msg ''signature'')) = Some True)"

text \<open>
  \<open>handleDataChannelMessage\<close>: a text that does not unmarshal into a map is dropped;
  the message type selects the handler.
\<close>

definition handleDataChannelMessage ::
  "go_prims \<Rightarrow> string \<Rightarrow> file_content \<Rightarrow> go_service \<Rightarrow> go_service option" where
  "handleDataChannelMessage G peerID data s =
     (case data of
        JsonText (JObj kvs) \<Rightarrow>
          (let msgType = go_str (JObj kvs) ''type''
           in if msgType = ''response'' then go_handleAuthResponse G peerID (JObj kvs) s
              else if msgType = ''request'' then Some (go_handleEntryRequest G peerID s)
              else Some s)
      | _ \<Rightarrow> Some s)"

text \<open>
  \<open>sendAuthChallenge\<close>; \<open>None\<close> is the nil dereference when the connection has been
  removed in the meantime.
\<close>

definition sendAuthChallenge :: "go_prims \<Rightarrow> string \<Rightarrow> go_service \<Rightarrow> go_service option" where
  "sendAuthChallenge G peerID s =
     (let (c, g) = randomBytes 32 (go_rand s)
      in case go_connections s peerID of
           None \<Rightarrow> None
         | Some conn \<Rightarrow>
             Some (SendText peerID
               (JObj [(''challenge'', JStr (EncodeToString G c)),
                      (''serviceBoxPublicKey'',
                         JStr (EncodeToString G (publicKey (boxKeyPair (go_identity s))))),
                      (''servicePublicKey'',
                         JStr (EncodeToString G (publicKey (keyPair (go_identity s))))),
                      (''type'', JStr ''challenge'')])
               (s\<lparr>go_rand := g,
                  go_connections := (go_connections s)(peerID \<mapsto> conn\<lparr>c_Challenge := Some c\<rparr>)\<rparr>)))"

text \<open>
  \<open>broadcastEntry\<close>: the text goes on the data channel of every connection that is
  authenticated and has one. The channels are separate, so the order in which the map
  is ranged over does not show.
\<close>

definition go_broadcastEntry :: "go_prims \<Rightarrow> entry \<Rightarrow> go_service \<Rightarrow> go_service" where
  "go_broadcastEntry G e s =
     s\<lparr>dataChannels := (\<lambda>peerID.
          case (go_connections s peerID, dataChannels s peerID) of
            (Some conn, Some log) \<Rightarrow>
              if c_Authenticated conn then Some (log @ [entry_msg G e]) else Some log
          | (_, ch) \<Rightarrow> ch)\<rparr>"

definition handleAddEntry :: "go_prims \<Rightarrow> int \<Rightarrow> string \<Rightarrow> go_service \<Rightarrow> go_service" where
  "handleAddEntry G now c s =
     (let e = \<lparr>entry_id = int (length (go_entries s)) + 1, content = c, timestamp = now,
                author = ''Admin''\<rparr>
      in go_broadcastEntry G e (s\<lparr>go_entries := go_entries s @ [e]\<rparr>))"

definition handleAddTrusted :: "int \<Rightarrow> TrustedUser \<Rightarrow> go_service \<Rightarrow> go_service" where
  "handleAddTrusted now user s =
     (let u = user\<lparr>tu_Permissions :=
                 (case tu_Permissions user of None \<Rightarrow> Some [''read''] | Some ps \<Rightarrow> Some ps),
               tu_TrustedAt := now\<rparr>
      in s\<lparr>trustedUsers := (trustedUsers s)(tu_PublicKey u \<mapsto> u)\<rparr>)"

definition handleRemoveTrusted :: "string \<Rightarrow> go_service \<Rightarrow> go_service" where
  "handleRemoveTrusted k s = s\<lparr>trustedUsers := (trustedUsers s)(k := None)\<rparr>"

text \<open>
  \<open>generateRoomID\<close>. The slice \<open>[:20]\<close> panics (\<open>None\<close>) on a string shorter than 20.
\<close>

definition generateRoomID :: "go_prims \<Rightarrow> go_service \<Rightarrow> string option" where
  "generateRoomID G s =
     (let h = EncodeToString G (sha256_Sum256 G
                (map of_char (go_roomSalt s @ '':'' @
                   EncodeToString G (publicKey (keyPair (go_identity s))))))
      in if length h < 20 then None else Some (take 20 h))"

text \<open>
  The events of the Go service: a signalling WebSocket connects (a new connection in
  state \<open>connecting\<close>) or ends (everything of the peer is deleted), the peer's data
  channel is announced, opens, carries a message or closes, and the admin's HTTP calls.
  A request whose body does not decode changes nothing and is no event. \<open>None\<close> is a
  panic.
\<close>

datatype go_event =
    WsConnect string
  | WsClosed string
  | OnDataChannel string
  | OnOpen string
  | OnMessage string file_content
  | OnClose string
  | AddEntry string int
  | AddTrusted TrustedUser int
  | RemoveTrusted string

fun go_step :: "go_prims \<Rightarrow> go_event \<Rightarrow> go_service \<Rightarrow> go_service option" where
  "go_step G (WsConnect peerID) s =
     Some (s\<lparr>go_connections := (go_connections s)(peerID \<mapsto>
       \<lparr>c_ID = peerID, c_State = ''connecting'', c_PublicKey = [], c_Name = [],
        c_Challenge = None, c_Authenticated = False\<rparr>)\<rparr>)"
| "go_step G (WsClosed peerID) s =
     Some (s\<lparr>go_connections := (go_connections s)(peerID := None),
              dataChannels := (dataChannels s)(peerID := None)\<rparr>)"
| "go_step G (OnDataChannel peerID) s =
     (case go_connections s peerID of
        None \<Rightarrow> None
      | Some conn \<Rightarrow>
          Some (s\<lparr>dataChannels := (dataChannels s)(peerID \<mapsto> []),
                   go_connections := (go_connections s)
                     (peerID \<mapsto> conn\<lparr>c_State := ''connected''\<rparr>)\<rparr>))"
| "go_step G (OnOpen peerID) s = sendAuthChallenge G peerID s"
| "go_step G (OnMessage peerID data) s = handleDataChannelMessage G peerID data s"
| "go_step G (OnClose peerID) s =
     (case go_connections s peerID of
        None \<Rightarrow> None
      | Some conn \<Rightarrow>
          Some (s\<lparr>dataChannels := (dataChannels s)(peerID := None),
                   go_connections := (go_connections s)
                     (peerID \<mapsto> conn\<lparr>c_State := ''disconnected''\<rparr>)\<rparr>))"
| "go_step G (AddEntry c now) s = Some (handleAddEntry G now c s)"
| "go_step G (AddTrusted user now) s = Some (handleAddTrusted now user s)"
| "go_step G (RemoveTrusted k) s = Some (handleRemoveTrusted k s)"

fun go_run :: "go_prims \<Rightarrow> go_event list \<Rightarrow> go_service \<Rightarrow> go_service option" where
  "go_run G [] s = Some s"
| "go_run G (ev # evs) s =
     (case go_step G ev s of None \<Rightarrow> None | Some s' \<Rightarrow> go_run G evs s')"




section \<open>An executable instance\<close>

text \<open>
  A small instance of the primitives, on which the model runs on concrete inputs. It has
  the interface of the real ones and none of their strength: \<open>decodeBase64\<close> takes a
  string, a one-element array of a string (read as that string) or \<open>null\<close> (read as
  the text \<open>null\<close>), and throws on any other value and on text that contains \<open>!\<close>; a
  key has two bytes and a nonce 24; the signature of a message under a key is the key
  followed by the message, and the box of a message is the nonce followed by the
  message.
\<close>

definition toy_prims :: prims where
  "toy_prims = \<lparr>
     decodeBase64 =
       (\<lambda>v. case (case v of Some (JStr t) \<Rightarrow> Some t | Some (JArr [JStr t]) \<Rightarrow> Some t
                         | Some JNull \<Rightarrow> Some ''null'' | _ \<Rightarrow> None) of
              None \<Rightarrow> None
            | Some t \<Rightarrow> if CHR ''!'' \<in> set t then None else Some (map of_char t)),
     encodeBase64 = map (\<lambda>w. char_of (unat w)),
     decodeUTF8 = map of_char,
     JSON_stringify =
       (\<lambda>j. case j of
              JObj kvs \<Rightarrow> concat (map (\<lambda>kv. fst kv @ (case snd kv of JStr t \<Rightarrow> t | _ \<Rightarrow> [])) kvs)
            | _ \<Rightarrow> ''v''),
     sign_detached_verify =
       (\<lambda>m sg pk. if length pk \<noteq> 2 then None else Some (sg = pk @ m)),
     box = (\<lambda>m n pk sk. if length n = 24 \<and> length pk = 2 then Some (n @ m) else None),
     hash = (\<lambda>m. replicate 32 (of_nat (length m))),
     sign_keyPair_fromSeed = (\<lambda>sd. \<lparr>publicKey = take 2 sd, secretKey = sd\<rparr>),
     box_keyPair_fromSecretKey = (\<lambda>sk. \<lparr>publicKey = take 2 sk, secretKey = sk\<rparr>),
     toISOString = (\<lambda>t. ''t'')\<rparr>"

definition toy_identity :: identity where
  "toy_identity = \<lparr>keyPair = \<lparr>publicKey = [1, 2], secretKey = [1, 2, 3]\<rparr>,
     boxKeyPair = \<lparr>publicKey = [4, 5], secretKey = [4, 5, 6]\<rparr>\<rparr>"

definition toy_entry :: "int \<Rightarrow> entry" where
  "toy_entry n = \<lparr>entry_id = n, content = ''c'', timestamp = 100 + n, author = ''Admin''\<rparr>"

definition conn0 :: "conn_state \<Rightarrow> connection" where
  "conn0 st = \<lparr>state = st, challenge = ''ch'', joinedAt = 7, conn_publicKey = None,
     conn_permissions = None, conn_name = None\<rparr>"

text \<open>
  A service with one trusted key \<open>''kA''\<close>, two entries and three peers: \<open>''p1''\<close> is
  being challenged, \<open>''p2''\<close> was found untrusted, \<open>''p3''\<close> is authenticated.
\<close>

definition toy_service :: service where
  "toy_service = \<lparr>roomSalt = ''trust-diary-v1'', identity = Some toy_identity,
     trustedKeys = [(''kA'', \<lparr>boxPublicKey = ''bA'', name = ''Ann'',
                      permissions = [''read''], trustedAt = 5\<rparr>)],
     entries = [toy_entry 1, toy_entry 2],
     connections = [(''p1'', conn0 Challenging), (''p2'', conn0 Untrusted),
       (''p3'', (conn0 Authenticated)\<lparr>conn_publicKey := Some ''kA'',
          conn_permissions := Some [''read''], conn_name := Some ''Ann''\<rparr>)],
     rand = (\<lambda>i. of_nat i),
     fs = \<lparr>files = Map.empty, writable = True\<rparr>,
     sent = []\<rparr>"

definition toy_go_prims :: go_prims where
  "toy_go_prims = \<lparr>
     DecodeString = map of_char,
     EncodeToString = map (\<lambda>w. char_of (unat w)),
     ed25519_Verify = (\<lambda>pk m sg. if length pk \<noteq> 2 then None else Some (sg = pk @ m)),
     sha256_Sum256 = (\<lambda>m. replicate 32 (of_nat (length m))),
     Time_MarshalJSON =
       (\<lambda>t. if t = 101 then ''1970-01-01T00:00:00.101Z''
            else if t = 102 then ''1970-01-01T00:00:00.102Z'' else ''1970-01-01T00:00:00Z'')\<rparr>"

definition go_conn0 :: "string \<Rightarrow> bool \<Rightarrow> go_connection" where
  "go_conn0 st a = \<lparr>c_ID = ''p'', c_State = st, c_PublicKey = (if a then ''kA'' else []),
     c_Name = (if a then ''Ann'' else []), c_Challenge = Some (map of_char ''ch''),
     c_Authenticated = a\<rparr>"

definition toy_go_service :: go_service where
  "toy_go_service = \<lparr>go_identity = toy_identity, go_roomSalt = ''trust-diary-v1'',
     trustedUsers = [''kA'' \<mapsto> \<lparr>tu_PublicKey = ''kA'', tu_BoxPublicKey = ''bA'',
        tu_Name = ''Ann'', tu_Permissions = Some [''read''], tu_TrustedAt = 5\<rparr>],
     go_entries = [toy_entry 1, toy_entry 2],
     go_connections = [''p1'' \<mapsto> go_conn0 ''connected'' False,
                       ''p3'' \<mapsto> go_conn0 ''authenticated'' True],
     dataChannels = [''p1'' \<mapsto> [], ''p3'' \<mapsto> []],
     go_rand = (\<lambda>i. of_nat i)\<rparr>"

text \<open>The response of the holder of key \<open>k\<close> to the challenge \<open>ch\<close>.\<close>

definition toy_response :: "string \<Rightarrow> json" where
  "toy_response k = JObj [(''type'', JStr ''response''), (''signature'', JStr (k @ ''ch'')),
     (''publicKey'', JStr k)]"

text \<open>
  A request to trust the key \<open>kA\<close> again, with a new box key, in both services; and a
  service that starts on a data directory whose \<open>identity.json\<close> is a truncated write.
\<close>

definition toy_body :: trust_body where
  "toy_body = \<lparr>tb_publicKey = ''kA'', tb_boxPublicKey = ''bA2'', tb_name = Some ''Ann'',
     tb_permissions = Some [''read'']\<rparr>"

definition toy_user :: TrustedUser where
  "toy_user = \<lparr>tu_PublicKey = ''kA'', tu_BoxPublicKey = ''bA2'', tu_Name = ''Ann'',
     tu_Permissions = None, tu_TrustedAt = 0\<rparr>"

definition corrupt_start :: service where
  "corrupt_start = toy_service\<lparr>identity := None,
     fs := \<lparr>files = [''identity.json'' \<mapsto> Unparsable ''{ publicKey: MDEy''], writable = True\<rparr>\<rparr>"


section \<open>Properties\<close>

subsection \<open>What the handlers leave alone, and the cases of a response\<close>

lemma room_update [simp]:
  "room (s\<lparr>rand := g\<rparr>) = room s"
  "room (s\<lparr>sent := x\<rparr>) = room s"
  "room (s\<lparr>fs := d\<rparr>) = room s"
  "room (s\<lparr>entries := es\<rparr>) = room s"
  "room (s\<lparr>trustedKeys := t\<rparr>) = room s"
  by (simp_all add: room_def)


lemma encryptForPeer_snd:
  "snd (encryptForPeer P d k s) = s\<lparr>rand := snd (randomBytes box_nonceLength (rand s))\<rparr>"
  by (simp add: encryptForPeer_def Let_def split: prod.splits option.splits)

lemma sendEach_frame:
  "connections (fst (sendEach P k es s)) = connections s
   \<and> trustedKeys (fst (sendEach P k es s)) = trustedKeys s
   \<and> entries (fst (sendEach P k es s)) = entries s
   \<and> identity (fst (sendEach P k es s)) = identity s
   \<and> fs (fst (sendEach P k es s)) = fs s
   \<and> roomSalt (fst (sendEach P k es s)) = roomSalt s"
proof (induction es arbitrary: s)
  case Nil
  show ?case by simp
next
  case (Cons e es)
  obtain r s' where r: "encryptForPeer P (entry_json e) k s = (r, s')"
    by (cases "encryptForPeer P (entry_json e) k s")
  then have s': "s' = s\<lparr>rand := snd (randomBytes box_nonceLength (rand s))\<rparr>"
    using encryptForPeer_snd [of P "entry_json e" k s] by simp
  show ?case
  proof (cases r)
    case None
    with r s' show ?thesis by simp
  next
    case (Some m)
    with r s' Cons.IH [of "s'\<lparr>sent := sent s' @ [(SendEntry m, room s')]\<rparr>"] show ?thesis by simp
  qed
qed

lemma sendEntriesToPeer_frame:
  "connections (fst (sendEntriesToPeer P p s)) = connections s
   \<and> trustedKeys (fst (sendEntriesToPeer P p s)) = trustedKeys s
   \<and> entries (fst (sendEntriesToPeer P p s)) = entries s
   \<and> identity (fst (sendEntriesToPeer P p s)) = identity s
   \<and> fs (fst (sendEntriesToPeer P p s)) = fs s
   \<and> roomSalt (fst (sendEntriesToPeer P p s)) = roomSalt s"
  by (simp add: sendEntriesToPeer_def sendEach_frame split: option.splits)

lemma handleAuthResponse_not_verified:
  assumes "map_of (connections s) peerId = Some conn"
    and "\<not> response_verified P conn data"
  shows "handleAuthResponse P data peerId s = s"
  using assms
  by (auto simp: handleAuthResponse_def response_verified_def split: option.splits)

lemma handleAuthResponse_untrusted:
  assumes "map_of (connections s) peerId = Some conn"
    and "state conn = Challenging"
    and "response_verified P conn data"
    and "trusted_lookup s (field data ''publicKey'') = None"
  shows "handleAuthResponse P data peerId s =
     s\<lparr>connections := AList.update peerId (conn\<lparr>state := Untrusted\<rparr>) (connections s)\<rparr>"
  using assms
  by (auto simp: handleAuthResponse_def response_verified_def split: option.splits)

lemma trusted_lookup_Some:
  "trusted_lookup s v = Some ti
   \<Longrightarrow> \<exists>k. v = Some (JStr k) \<and> map_of (trustedKeys s) k = Some ti"
  by (auto simp: trusted_lookup_def split: option.splits json.splits)

lemma handleAuthResponse_trusted:
  assumes "map_of (connections s) peerId = Some conn"
    and "state conn = Challenging"
    and "response_verified P conn data"
    and "field data ''publicKey'' = Some (JStr k)"
    and "map_of (trustedKeys s) k = Some ti"
  shows "handleAuthResponse P data peerId s =
     fst (sendEntriesToPeer P peerId
       (s\<lparr>connections := AList.update peerId
           (conn\<lparr>state := Authenticated, conn_publicKey := Some k,
                 conn_permissions := Some (permissions ti), conn_name := Some (name ti)\<rparr>)
           (connections s)\<rparr>))"
  using assms
  by (auto simp: handleAuthResponse_def response_verified_def trusted_lookup_def
      split: option.splits)


lemma handleAuthResponse_failure_sent:
  assumes "map_of (connections s) peerId = Some conn"
    and "\<not> response_verified P conn data \<or> trusted_lookup s (field data ''publicKey'') = None"
  shows "sent (handleAuthResponse P data peerId s) = sent s"
proof (cases "response_verified P conn data")
  case False
  with assms show ?thesis by (simp add: handleAuthResponse_not_verified)
next
  case True
  with assms have u: "trusted_lookup s (field data ''publicKey'') = None" by simp
  show ?thesis
  proof (cases "state conn = Challenging")
    case False
    with assms show ?thesis by (simp add: handleAuthResponse_def)
  next
    case c: True
    from assms(1) c True u show ?thesis by (simp add: handleAuthResponse_untrusted)
  qed
qed

lemma fold_SendText:
  "fold (\<lambda>e. SendText p (f e)) es s =
     (case dataChannels s p of
        None \<Rightarrow> s
      | Some log \<Rightarrow> s\<lparr>dataChannels := (dataChannels s)(p \<mapsto> log @ map f es)\<rparr>)"
proof (induction es arbitrary: s)
  case Nil
  show ?case by (simp add: map_upd_triv split: option.splits)
next
  case (Cons e es)
  have "fold (\<lambda>e. SendText p (f e)) (e # es) s =
        fold (\<lambda>e. SendText p (f e)) es (SendText p (f e) s)"
    by simp
  also have "\<dots> = (case dataChannels (SendText p (f e) s) p of
        None \<Rightarrow> SendText p (f e) s
      | Some log \<Rightarrow> (SendText p (f e) s)\<lparr>dataChannels :=
          (dataChannels (SendText p (f e) s))(p \<mapsto> log @ map f es)\<rparr>)"
    by (rule Cons.IH)
  also have "\<dots> = (case dataChannels s p of
        None \<Rightarrow> s
      | Some log \<Rightarrow> s\<lparr>dataChannels := (dataChannels s)(p \<mapsto> log @ map f (e # es))\<rparr>)"
    by (cases "dataChannels s p") (simp_all add: SendText_def)
  finally show ?case .
qed

lemma go_sendEntriesToPeer_eq:
  "go_sendEntriesToPeer G p s =
     (case (dataChannels s p, go_connections s p) of
        (Some log, Some conn) \<Rightarrow>
          if c_Authenticated conn
          then s\<lparr>dataChannels := (dataChannels s)(p \<mapsto> log @ map (entry_msg G) (go_entries s))\<rparr>
          else s
      | _ \<Rightarrow> s)"
  by (simp add: go_sendEntriesToPeer_def fold_SendText split: option.splits)

lemma go_sendEntriesToPeer_frame:
  "go_connections (go_sendEntriesToPeer G p s) = go_connections s
   \<and> trustedUsers (go_sendEntriesToPeer G p s) = trustedUsers s
   \<and> go_entries (go_sendEntriesToPeer G p s) = go_entries s"
  by (simp add: go_sendEntriesToPeer_eq split: option.splits)

lemma go_handleAuthResponse_not_verified:
  assumes "go_connections s peerID = Some conn"
    and "\<not> go_response_verified G conn msg"
  shows "go_handleAuthResponse G peerID msg s = None \<or> go_handleAuthResponse G peerID msg s = Some s"
  using assms
  by (auto simp: go_handleAuthResponse_def go_response_verified_def Let_def split: option.splits)

lemma go_handleAuthResponse_false:
  assumes "go_connections s peerID = Some conn" and "c_Challenge conn = Some ch"
    and "ed25519_Verify G (DecodeString G (go_str msg ''publicKey'')) ch
            (DecodeString G (go_str msg ''signature'')) = Some False"
  shows "go_handleAuthResponse G peerID msg s = Some s"
  using assms
  by (auto simp: go_handleAuthResponse_def Let_def split: option.splits)

lemma go_handleAuthResponse_untrusted:
  assumes "go_connections s peerID = Some conn"
    and "go_response_verified G conn msg"
    and "trustedUsers s (go_str msg ''publicKey'') = None"
  shows "go_handleAuthResponse G peerID msg s =
     Some (s\<lparr>go_connections := (go_connections s)(peerID \<mapsto> conn\<lparr>c_State := ''untrusted''\<rparr>)\<rparr>)"
  using assms
  by (auto simp: go_handleAuthResponse_def go_response_verified_def Let_def split: option.splits)

lemma go_handleAuthResponse_trusted:
  assumes "go_connections s peerID = Some conn"
    and "go_response_verified G conn msg"
    and "trustedUsers s (go_str msg ''publicKey'') = Some tu"
  shows "go_handleAuthResponse G peerID msg s =
     Some (go_sendEntriesToPeer G peerID
       (s\<lparr>go_connections := (go_connections s)
            (peerID \<mapsto> conn\<lparr>c_State := ''authenticated'',
               c_PublicKey := go_str msg ''publicKey'', c_Name := tu_Name tu,
               c_Authenticated := True\<rparr>)\<rparr>))"
  using assms
  by (auto simp: go_handleAuthResponse_def go_response_verified_def Let_def split: option.splits)

lemma toy_bad: "\<not> response_verified toy_prims (conn0 Challenging)
    (JObj [(''signature'', JStr ''kAxx''), (''publicKey'', JStr ''kA'')])"
  by (simp add: response_verified_def toy_prims_def conn0_def)

lemma toy_good: "response_verified toy_prims (conn0 Challenging)
    (JObj [(''signature'', JStr ''kAch''), (''publicKey'', JStr ''kA'')])"
  by (simp add: response_verified_def toy_prims_def conn0_def)

lemma toy_kA: "map_of (trustedKeys toy_service) ''kA'' =
     Some \<lparr>boxPublicKey = ''bA'', name = ''Ann'', permissions = [''read''], trustedAt = 5\<rparr>"
  by (simp add: toy_service_def)

lemma toy_p1: "map_of (connections toy_service) ''p1'' = Some (conn0 Challenging)"
  by (simp add: toy_service_def)

lemma toy_go_p1: "go_connections toy_go_service ''p1'' = Some (go_conn0 ''connected'' False)"
  by (simp add: toy_go_service_def)

text \<open>
  Values that are not strings reach \<open>decodeBase64\<close> as they are. In the instance, a
  response whose public key is the array \<open>["kA"]\<close> verifies as the key \<open>kA\<close> does, but
  the array is not a key of the trust store, so the connection becomes untrusted; a
  response whose signature is an array and whose public key is the string \<open>kA\<close>
  authenticates the connection; and an identity file whose four keys are \<open>null\<close> is
  loaded as an identity.
\<close>

lemma toy_coerced_publicKey:
  "map_option state (map_of (connections (handleAuthResponse toy_prims
       (JObj [(''signature'', JStr ''kAch''), (''publicKey'', JArr [JStr ''kA''])]) ''p1''
       toy_service)) ''p1'') = Some Untrusted"
proof -
  have v: "response_verified toy_prims (conn0 Challenging)
      (JObj [(''signature'', JStr ''kAch''), (''publicKey'', JArr [JStr ''kA''])])"
    by (simp add: response_verified_def toy_prims_def conn0_def)
  show ?thesis
    by (subst handleAuthResponse_untrusted [OF toy_p1 _ v])
       (simp_all add: conn0_def trusted_lookup_def update_conv)
qed

lemma toy_coerced_signature:
  "map_option state (map_of (connections (handleAuthResponse toy_prims
       (JObj [(''signature'', JArr [JStr ''kAch'']), (''publicKey'', JStr ''kA'')]) ''p1''
       toy_service)) ''p1'') = Some Authenticated"
proof -
  have v: "response_verified toy_prims (conn0 Challenging)
      (JObj [(''signature'', JArr [JStr ''kAch'']), (''publicKey'', JStr ''kA'')])"
    by (simp add: response_verified_def toy_prims_def conn0_def)
  show ?thesis
    by (subst handleAuthResponse_trusted [OF toy_p1 _ v _ toy_kA])
       (simp_all add: conn0_def sendEntriesToPeer_frame update_conv)
qed

lemma toy_null_identity:
  "readIdentity toy_prims
     \<lparr>files = [''identity.json'' \<mapsto> JsonText (JObj [(''publicKey'', JNull),
        (''secretKey'', JNull), (''boxPublicKey'', JNull), (''boxSecretKey'', JNull)])],
      writable = True\<rparr>
   = Some \<lparr>keyPair = \<lparr>publicKey = map of_char ''null'', secretKey = map of_char ''null''\<rparr>,
           boxKeyPair = \<lparr>publicKey = map of_char ''null'', secretKey = map of_char ''null''\<rparr>\<rparr>"
  by (simp add: readIdentity_def readFile_def toy_prims_def)

subsection \<open>Events that do not concern a peer\<close>

lemma broadcastEach_frame:
  "connections (fst (broadcastEach P e cs s)) = connections s
   \<and> trustedKeys (fst (broadcastEach P e cs s)) = trustedKeys s
   \<and> entries (fst (broadcastEach P e cs s)) = entries s
   \<and> identity (fst (broadcastEach P e cs s)) = identity s
   \<and> fs (fst (broadcastEach P e cs s)) = fs s
   \<and> roomSalt (fst (broadcastEach P e cs s)) = roomSalt s"
proof (induction cs arbitrary: s)
  case Nil
  show ?case by simp
next
  case (Cons pc cs)
  show ?case
  proof (cases "state (snd pc) = Authenticated")
    case False
    then show ?thesis using Cons.IH [of s] by simp
  next
    case True
    show ?thesis
    proof (cases "Option.bind (conn_publicKey (snd pc)) (map_of (trustedKeys s))")
      case None
      with True show ?thesis using Cons.IH [of s] by simp
    next
      case (Some ti)
      obtain r s' where r: "encryptForPeer P (entry_json e) (boxPublicKey ti) s = (r, s')"
        by (cases "encryptForPeer P (entry_json e) (boxPublicKey ti) s")
      then have s': "s' = s\<lparr>rand := snd (randomBytes box_nonceLength (rand s))\<rparr>"
        using encryptForPeer_snd [of P "entry_json e" "boxPublicKey ti" s] by simp
      show ?thesis
      proof (cases r)
        case None
        with True Some r s' show ?thesis by simp
      next
        case (Some m)
        with True \<open>Option.bind (conn_publicKey (snd pc)) (map_of (trustedKeys s)) = Some ti\<close> r s'
          Cons.IH [of "s'\<lparr>sent := sent s' @ [(SendEntry m, room s')]\<rparr>"]
        show ?thesis by simp
      qed
    qed
  qed
qed

lemma announceEach_frame:
  "connections (fst (announceEach P a kvs s)) = connections s
   \<and> trustedKeys (fst (announceEach P a kvs s)) = trustedKeys s
   \<and> entries (fst (announceEach P a kvs s)) = entries s
   \<and> identity (fst (announceEach P a kvs s)) = identity s
   \<and> fs (fst (announceEach P a kvs s)) = fs s
   \<and> roomSalt (fst (announceEach P a kvs s)) = roomSalt s"
proof (induction kvs arbitrary: s)
  case Nil
  show ?case by simp
next
  case (Cons kv kvs)
  obtain r s' where r: "encryptForPeer P a (boxPublicKey (snd kv)) s = (r, s')"
    by (cases "encryptForPeer P a (boxPublicKey (snd kv)) s")
  then have s': "s' = s\<lparr>rand := snd (randomBytes box_nonceLength (rand s))\<rparr>"
    using encryptForPeer_snd [of P a "boxPublicKey (snd kv)" s] by simp
  show ?case
  proof (cases r)
    case None
    with r s' show ?thesis by simp
  next
    case (Some m)
    with r s' Cons.IH [of "s'\<lparr>sent := sent s' @ [(SendAnnouncement m, room s')]\<rparr>"] show ?thesis by simp
  qed
qed


lemma postEntry_entries:
  "entries (fst (postEntry P now c s)) =
     entries s @ [\<lparr>entry_id = int (length (entries s)) + 1, content = c, timestamp = now,
                   author = ''Admin''\<rparr>]"
  by (auto simp: postEntry_def Let_def saveEntries_def broadcastEntry_def broadcastEach_frame
      split: option.splits)

lemma postTrusted_frame:
  "connections (fst (postTrusted now b s)) = connections s
   \<and> entries (fst (postTrusted now b s)) = entries s
   \<and> identity (fst (postTrusted now b s)) = identity s
   \<and> sent (fst (postTrusted now b s)) = sent s"
  by (auto simp: postTrusted_def Let_def saveTrustedKeys_def split: option.splits)

lemma deleteTrusted_frame:
  "connections (fst (deleteTrusted k s)) = connections s
   \<and> entries (fst (deleteTrusted k s)) = entries s
   \<and> identity (fst (deleteTrusted k s)) = identity s
   \<and> sent (fst (deleteTrusted k s)) = sent s"
  by (auto simp: deleteTrusted_def Let_def saveTrustedKeys_def split: option.splits)

lemma presenceBroadcast_frame:
  "connections (fst (presenceBroadcast P now s)) = connections s
   \<and> trustedKeys (fst (presenceBroadcast P now s)) = trustedKeys s
   \<and> entries (fst (presenceBroadcast P now s)) = entries s
   \<and> identity (fst (presenceBroadcast P now s)) = identity s"
  by (simp add: presenceBroadcast_def announceEach_frame split: option.splits)

lemma handlePeerJoin_frame:
  "trustedKeys (fst (handlePeerJoin P now p s)) = trustedKeys s
   \<and> entries (fst (handlePeerJoin P now p s)) = entries s
   \<and> identity (fst (handlePeerJoin P now p s)) = identity s
   \<and> (q \<noteq> p \<longrightarrow> map_of (connections (fst (handlePeerJoin P now p s))) q = map_of (connections s) q)"
  by (auto simp: handlePeerJoin_def Let_def update_conv split: prod.splits option.splits)

lemma handleAuthResponse_frame:
  "trustedKeys (handleAuthResponse P data p s) = trustedKeys s
   \<and> entries (handleAuthResponse P data p s) = entries s
   \<and> identity (handleAuthResponse P data p s) = identity s
   \<and> fs (handleAuthResponse P data p s) = fs s
   \<and> (q \<noteq> p \<longrightarrow> map_of (connections (handleAuthResponse P data p s)) q = map_of (connections s) q)"
  by (auto simp: handleAuthResponse_def sendEntriesToPeer_frame update_conv split: option.splits)










lemma handleDataChannelMessage_JObj:
  "handleDataChannelMessage G q (JsonText (JObj kvs)) s =
     (if go_str (JObj kvs) ''type'' = ''response'' then go_handleAuthResponse G q (JObj kvs) s
      else if go_str (JObj kvs) ''type'' = ''request'' then Some (go_handleEntryRequest G q s)
      else Some s)"
  by (simp add: handleDataChannelMessage_def Let_def)

lemma handleDataChannelMessage_dropped:
  "\<forall>kvs. data \<noteq> JsonText (JObj kvs) \<Longrightarrow> handleDataChannelMessage G q data s = Some s"
proof (cases data)
  case (JsonText j)
  assume "\<forall>kvs. data \<noteq> JsonText (JObj kvs)"
  with JsonText show ?thesis by (cases j) (simp_all add: handleDataChannelMessage_def)
next
  case (Unparsable t)
  then show ?thesis by (simp add: handleDataChannelMessage_def)
qed













subsection \<open>What the sending loops send\<close>



lemma nth_nonce_0: "fst (randomBytes box_nonceLength g) = nth_nonce g 0"
  by (simp add: randomBytes_def nth_nonce_def)





lemma sendAll_trustedKeys: "trustedKeys (fst (sendAll P mk jobs s)) = trustedKeys s"
proof (induction jobs arbitrary: s)
  case Nil
  show ?case by simp
next
  case (Cons job jobs)
  obtain r s' where r: "encryptForPeer P (fst job) (snd job) s = (r, s')"
    by (cases "encryptForPeer P (fst job) (snd job) s")
  then have s': "s' = s\<lparr>rand := snd (randomBytes box_nonceLength (rand s))\<rparr>"
    using encryptForPeer_snd [of P "fst job" "snd job" s] by simp
  show ?case
  proof (cases r)
    case None
    with r s' show ?thesis by simp
  next
    case (Some m)
    with r s' Cons.IH [of "s'\<lparr>sent := sent s' @ [(mk m, room s')]\<rparr>"] show ?thesis by simp
  qed
qed







lemma toy_identity_Some: "identity toy_service = Some toy_identity"
  by (simp add: toy_service_def)






lemma toy_room: "room toy_service = [''p1'', ''p2'', ''p3'']"
  by (simp add: room_def toy_service_def)

lemma toy_room_rand: "room (toy_service\<lparr>rand := g\<rparr>) = [''p1'', ''p2'', ''p3'']"
  by (simp add: toy_room)


subsection \<open>The log, the trust store and the identity file\<close>

lemma ids_sequential_bound:
  assumes "ids_sequential es" and "x \<in> set es"
  shows "entry_id x < int (length es) + 1"
proof -
  from assms(2) have "entry_id x \<in> set (map entry_id es)" by simp
  with assms(1) have "entry_id x \<in> set (map int [1..<Suc (length es)])"
    by (simp only: ids_sequential_def)
  then show ?thesis by auto
qed

lemma ids_sequential_append:
  assumes "ids_sequential es" and "entry_id e = int (length es) + 1"
  shows "ids_sequential (es @ [e])"
  using assms by (simp add: ids_sequential_def)

lemma ids_sequential_snoc:
  "ids_sequential es \<Longrightarrow>
   ids_sequential (es @ [\<lparr>entry_id = int (length es) + 1, content = c, timestamp = now,
                           author = a\<rparr>])"
  by (rule ids_sequential_append) simp_all

lemma step_entries:
  "entries (step P ev s) = entries s
   \<or> (\<exists>c now. entries (step P ev s) =
         entries s @ [\<lparr>entry_id = int (length (entries s)) + 1, content = c, timestamp = now,
                       author = ''Admin''\<rparr>])"
proof (cases ev)
  case (PeerJoin q now)
  then show ?thesis using handlePeerJoin_frame [of P now q s q] by simp
next
  case (Response data q)
  then show ?thesis using handleAuthResponse_frame [of P data q s q] by simp
next
  case (PostEntry c now)
  then show ?thesis by (auto simp: postEntry_entries)
next
  case (AdminAddEntry c now)
  then show ?thesis by (auto simp: postEntry_entries)
qed (simp_all add: postTrusted_frame deleteTrusted_frame presenceBroadcast_frame)

lemma go_handleAuthResponse_entries:
  "go_handleAuthResponse G p msg s = Some s' \<Longrightarrow> go_entries s' = go_entries s"
  by (auto simp: go_handleAuthResponse_def Let_def go_sendEntriesToPeer_frame
      split: option.splits if_splits)

lemma go_step_entries:
  assumes "go_step G ev s = Some s'"
  shows "go_entries s' = go_entries s
   \<or> (\<exists>c now. go_entries s' =
         go_entries s @ [\<lparr>entry_id = int (length (go_entries s)) + 1, content = c,
                          timestamp = now, author = ''Admin''\<rparr>])"
proof (cases ev)
  case (OnOpen q)
  with assms show ?thesis
    by (auto simp: sendAuthChallenge_def SendText_def Let_def split: prod.splits option.splits)
next
  case (OnMessage q data)
  show ?thesis
  proof (cases "\<exists>kvs. data = JsonText (JObj kvs)")
    case False
    with assms OnMessage show ?thesis by (simp add: handleDataChannelMessage_dropped)
  next
    case True
    then obtain kvs where "data = JsonText (JObj kvs)" by blast
    with assms OnMessage show ?thesis
      by (auto simp: handleDataChannelMessage_JObj go_handleAuthResponse_entries
          go_handleEntryRequest_def go_sendEntriesToPeer_frame split: if_splits option.splits)
  qed
next
  case (AddEntry c now)
  with assms show ?thesis by (auto simp: handleAddEntry_def go_broadcastEntry_def Let_def)
qed (use assms in \<open>auto simp: handleAddTrusted_def handleRemoveTrusted_def Let_def
       split: option.splits\<close>)

lemma postTrusted_trustedKeys:
  "trustedKeys (fst (postTrusted now b s)) =
     AList.update (tb_publicKey b) (stored_info now b) (trustedKeys s)"
  by (auto simp: postTrusted_def Let_def saveTrustedKeys_def stored_info_def split: option.splits)

lemma length_update:
  "length (AList.update k v al) = (if k \<in> fst ` set al then length al else Suc (length al))"
  by (induction al) auto

lemma postTrusted_twice:
  "fst (postTrusted t2 b (fst (postTrusted t1 b s))) = fst (postTrusted t2 b s)"
  by (cases "writable (fs s)")
     (simp_all add: postTrusted_def Let_def saveTrustedKeys_def writeFile_def)

lemma loadIdentity_regenerates:
  assumes "readIdentity P (fs s) = None" and "writable (fs s)"
  shows "loadIdentity P now s =
     (s\<lparr>identity := Some (fresh_identity P (rand s)),
        rand := snd (randomBytes 32 (snd (randomBytes 32 (rand s)))),
        fs := (fs s)\<lparr>files := (files (fs s))(''identity.json'' \<mapsto>
                JsonText (identity_json P now (fresh_identity P (rand s))))\<rparr>\<rparr>,
      None)"
  using assms
  by (simp add: loadIdentity_def Let_def case_prod_beta writeFile_def fresh_identity_def)

subsection \<open>Responses outside the challenging state\<close>

text \<open>
  Claim C10. For a connection whose state is not \<open>challenging\<close> (so also one that is
  already \<open>authenticated\<close> or \<open>untrusted\<close>), \<open>handleAuthResponse\<close> on a further
  response message returns at its guard: the whole service is unchanged, and so are the
  connection's state, recorded public key, name and permissions.
\<close>

theorem response_outside_challenging_unchanged:
  assumes "map_of (connections s) peerId = Some conn"
    and "state conn \<noteq> Challenging"
  shows "handleAuthResponse P data peerId s = s
    \<and> map_of (connections (handleAuthResponse P data peerId s)) peerId = Some conn"
  using assms by (simp add: handleAuthResponse_def)

theorem response_outside_challenging_unchanged_witness:
  "map_of (connections toy_service) ''p3'' =
     Some ((conn0 Authenticated)\<lparr>conn_publicKey := Some ''kA'',
        conn_permissions := Some [''read''], conn_name := Some ''Ann''\<rparr>)
   \<and> state ((conn0 Authenticated)\<lparr>conn_publicKey := Some ''kA'',
        conn_permissions := Some [''read''], conn_name := Some ''Ann''\<rparr>) \<noteq> Challenging
   \<and> handleAuthResponse toy_prims
        (JObj [(''signature'', JStr ''kAch''), (''publicKey'', JStr ''kA'')]) ''p3'' toy_service
      = toy_service"
proof -
  have h1: "map_of (connections toy_service) ''p3'' =
     Some ((conn0 Authenticated)\<lparr>conn_publicKey := Some ''kA'',
        conn_permissions := Some [''read''], conn_name := Some ''Ann''\<rparr>)"
    by (simp add: toy_service_def)
  have h2: "state ((conn0 Authenticated)\<lparr>conn_publicKey := Some ''kA'',
        conn_permissions := Some [''read''], conn_name := Some ''Ann''\<rparr>) \<noteq> Challenging"
    by (simp add: conn0_def)
  from response_outside_challenging_unchanged [OF h1 h2] h1 h2 show ?thesis by simp
qed

subsection \<open>A response whose signature is invalid\<close>

text \<open>
  Claim C1 says that an invalid signature moves the session to a rejected state and
  discards the challenge, so that a second response to the same challenge has no effect.
  The service has no such state. In the instance below the response \<open>kAxx\<close> does not
  verify; after it the connection of \<open>p1\<close> is what it was, still challenging with the
  challenge \<open>ch\<close>, and the second response \<open>kAch\<close> to that challenge authenticates it.
\<close>

theorem invalid_signature_rejected_counterexample:
  "\<not> response_verified toy_prims (conn0 Challenging)
       (JObj [(''signature'', JStr ''kAxx''), (''publicKey'', JStr ''kA'')])
   \<and> map_of (connections (handleAuthResponse toy_prims
         (JObj [(''signature'', JStr ''kAxx''), (''publicKey'', JStr ''kA'')]) ''p1'' toy_service))
       ''p1'' = Some (conn0 Challenging)
   \<and> challenge (conn0 Challenging) = ''ch''
   \<and> map_option state (map_of (connections
        (handleAuthResponse toy_prims
           (JObj [(''signature'', JStr ''kAch''), (''publicKey'', JStr ''kA'')]) ''p1''
           (handleAuthResponse toy_prims
              (JObj [(''signature'', JStr ''kAxx''), (''publicKey'', JStr ''kA'')]) ''p1''
              toy_service))) ''p1'') = Some Authenticated"
proof -
  have a: "handleAuthResponse toy_prims
         (JObj [(''signature'', JStr ''kAxx''), (''publicKey'', JStr ''kA'')]) ''p1'' toy_service
       = toy_service"
    by (rule handleAuthResponse_not_verified [OF toy_p1 toy_bad])
  have b: "map_option state (map_of (connections
        (handleAuthResponse toy_prims
           (JObj [(''signature'', JStr ''kAch''), (''publicKey'', JStr ''kA'')]) ''p1''
           toy_service)) ''p1'') = Some Authenticated"
    by (subst handleAuthResponse_trusted [OF toy_p1 _ toy_good _ toy_kA])
       (simp_all add: conn0_def sendEntriesToPeer_frame update_conv)
  from a b toy_bad toy_p1 show ?thesis by (simp add: conn0_def)
qed

text \<open>
  Claim C1 as amended. A response that does not verify (a field does not decode, the
  verification throws or returns false), received while the connection is challenging,
  leaves the whole service as it is: the state stays \<open>challenging\<close> and the challenge
  is kept. A later response to the same challenge that verifies and whose public key is
  in the trust store authenticates the connection. The same holds in the Go service,
  whose handler returns on a false \<open>ed25519.Verify\<close> without touching the connection.
\<close>

theorem invalid_signature_leaves_session:
  "(map_of (connections s) peerId = Some conn \<and> state conn = Challenging
      \<and> \<not> response_verified P conn data
    \<longrightarrow> handleAuthResponse P data peerId s = s
        \<and> (response_verified P conn data'
             \<and> trusted_lookup s (field data' ''publicKey'') = Some ti
           \<longrightarrow> map_option state (map_of (connections
                 (handleAuthResponse P data' peerId (handleAuthResponse P data peerId s)))
                 peerId) = Some Authenticated))
   \<and> (go_connections g peerID = Some gc \<and> c_Challenge gc = Some ch
       \<and> ed25519_Verify G (DecodeString G (go_str msg ''publicKey'')) ch
            (DecodeString G (go_str msg ''signature'')) = Some False
    \<longrightarrow> go_handleAuthResponse G peerID msg g = Some g
        \<and> (go_response_verified G gc msg' \<and> trustedUsers g (go_str msg' ''publicKey'') = Some tu
           \<longrightarrow> (\<exists>g'. go_handleAuthResponse G peerID msg' g = Some g'
                  \<and> map_option c_Authenticated (go_connections g' peerID) = Some True)))"
proof (intro conjI impI)
  assume h: "map_of (connections s) peerId = Some conn \<and> state conn = Challenging
      \<and> \<not> response_verified P conn data"
  then show same: "handleAuthResponse P data peerId s = s"
    by (simp add: handleAuthResponse_not_verified)
  assume h2: "response_verified P conn data'
             \<and> trusted_lookup s (field data' ''publicKey'') = Some ti"
  then obtain k where k: "field data' ''publicKey'' = Some (JStr k)"
    and tk: "map_of (trustedKeys s) k = Some ti"
    using trusted_lookup_Some by blast
  have "handleAuthResponse P data' peerId s =
     fst (sendEntriesToPeer P peerId
       (s\<lparr>connections := AList.update peerId
           (conn\<lparr>state := Authenticated, conn_publicKey := Some k,
                 conn_permissions := Some (permissions ti), conn_name := Some (name ti)\<rparr>)
           (connections s)\<rparr>))"
    using h h2 k tk by (intro handleAuthResponse_trusted) simp_all
  then show "map_option state (map_of (connections
                 (handleAuthResponse P data' peerId (handleAuthResponse P data peerId s)))
                 peerId) = Some Authenticated"
    by (simp add: same sendEntriesToPeer_frame update_conv)
next
  assume h: "go_connections g peerID = Some gc \<and> c_Challenge gc = Some ch
       \<and> ed25519_Verify G (DecodeString G (go_str msg ''publicKey'')) ch
            (DecodeString G (go_str msg ''signature'')) = Some False"
  then show "go_handleAuthResponse G peerID msg g = Some g"
    by (simp add: go_handleAuthResponse_false)
  assume h2: "go_response_verified G gc msg' \<and> trustedUsers g (go_str msg' ''publicKey'') = Some tu"
  with h show "\<exists>g'. go_handleAuthResponse G peerID msg' g = Some g'
                  \<and> map_option c_Authenticated (go_connections g' peerID) = Some True"
    by (simp add: go_handleAuthResponse_trusted go_sendEntriesToPeer_frame)
qed

theorem invalid_signature_leaves_session_witness:
  "map_of (connections toy_service) ''p1'' = Some (conn0 Challenging)
   \<and> state (conn0 Challenging) = Challenging
   \<and> \<not> response_verified toy_prims (conn0 Challenging)
       (JObj [(''signature'', JStr ''kAxx''), (''publicKey'', JStr ''kA'')])
   \<and> handleAuthResponse toy_prims
       (JObj [(''signature'', JStr ''kAxx''), (''publicKey'', JStr ''kA'')]) ''p1'' toy_service
      = toy_service
   \<and> response_verified toy_prims (conn0 Challenging)
       (JObj [(''signature'', JStr ''kAch''), (''publicKey'', JStr ''kA'')])
   \<and> trusted_lookup toy_service
       (field (JObj [(''signature'', JStr ''kAch''), (''publicKey'', JStr ''kA'')]) ''publicKey'')
      = Some \<lparr>boxPublicKey = ''bA'', name = ''Ann'', permissions = [''read''], trustedAt = 5\<rparr>
   \<and> map_option state (map_of (connections
        (handleAuthResponse toy_prims
           (JObj [(''signature'', JStr ''kAch''), (''publicKey'', JStr ''kA'')]) ''p1''
           (handleAuthResponse toy_prims
              (JObj [(''signature'', JStr ''kAxx''), (''publicKey'', JStr ''kA'')]) ''p1''
              toy_service))) ''p1'') = Some Authenticated
   \<and> go_connections toy_go_service ''p1'' = Some (go_conn0 ''connected'' False)
   \<and> c_Challenge (go_conn0 ''connected'' False) = Some (map of_char ''ch'')
   \<and> ed25519_Verify toy_go_prims
        (DecodeString toy_go_prims
           (go_str (JObj [(''signature'', JStr ''kAxx''), (''publicKey'', JStr ''kA'')]) ''publicKey''))
        (map of_char ''ch'')
        (DecodeString toy_go_prims
           (go_str (JObj [(''signature'', JStr ''kAxx''), (''publicKey'', JStr ''kA'')]) ''signature''))
      = Some False
   \<and> go_handleAuthResponse toy_go_prims ''p1''
        (JObj [(''signature'', JStr ''kAxx''), (''publicKey'', JStr ''kA'')]) toy_go_service
      = Some toy_go_service
   \<and> go_response_verified toy_go_prims (go_conn0 ''connected'' False) (toy_response ''kA'')
   \<and> trustedUsers toy_go_service (go_str (toy_response ''kA'') ''publicKey'') =
        Some \<lparr>tu_PublicKey = ''kA'', tu_BoxPublicKey = ''bA'', tu_Name = ''Ann'',
              tu_Permissions = Some [''read''], tu_TrustedAt = 5\<rparr>
   \<and> map_option (\<lambda>g. map_option c_Authenticated (go_connections g ''p1''))
        (go_handleAuthResponse toy_go_prims ''p1'' (toy_response ''kA'') toy_go_service)
      = Some (Some True)"
proof -
  let ?bad = "JObj [(''signature'', JStr ''kAxx''), (''publicKey'', JStr ''kA'')]"
  let ?good = "JObj [(''signature'', JStr ''kAch''), (''publicKey'', JStr ''kA'')]"
  let ?ti = "\<lparr>boxPublicKey = ''bA'', name = ''Ann'', permissions = [''read''], trustedAt = 5\<rparr>"
  let ?tu = "\<lparr>tu_PublicKey = ''kA'', tu_BoxPublicKey = ''bA'', tu_Name = ''Ann'',
              tu_Permissions = Some [''read''], tu_TrustedAt = 5\<rparr>"
  have c: "state (conn0 Challenging) = Challenging" by (simp add: conn0_def)
  have tl: "trusted_lookup toy_service (field ?good ''publicKey'') = Some ?ti"
    by (simp add: trusted_lookup_def toy_service_def)
  have gch: "c_Challenge (go_conn0 ''connected'' False) = Some (map of_char ''ch'')"
    by (simp add: go_conn0_def)
  have gv: "ed25519_Verify toy_go_prims
        (DecodeString toy_go_prims (go_str ?bad ''publicKey''))
        (map of_char ''ch'')
        (DecodeString toy_go_prims (go_str ?bad ''signature''))
      = Some False"
    by (simp add: toy_go_prims_def go_str_def)
  have gv': "go_response_verified toy_go_prims (go_conn0 ''connected'' False) (toy_response ''kA'')"
    by (simp add: go_response_verified_def go_conn0_def go_str_def toy_response_def
        toy_go_prims_def)
  have tu: "trustedUsers toy_go_service (go_str (toy_response ''kA'') ''publicKey'') = Some ?tu"
    by (simp add: toy_go_service_def go_str_def toy_response_def)
  note T = invalid_signature_leaves_session
    [where s = toy_service and peerId = "''p1''" and conn = "conn0 Challenging"
        and P = toy_prims and data = ?bad and data' = ?good and ti = ?ti
        and g = toy_go_service and peerID = "''p1''" and gc = "go_conn0 ''connected'' False"
        and ch = "map of_char ''ch''" and G = toy_go_prims and msg = ?bad
        and msg' = "toy_response ''kA''" and tu = ?tu]
  note T1 = T [THEN conjunct1, THEN mp, OF conjI [OF toy_p1 conjI [OF c toy_bad]]]
  note b1 = T1 [THEN conjunct1]
  note b2 = T1 [THEN conjunct2, THEN mp, OF conjI [OF toy_good tl]]
  note T2 = T [THEN conjunct2, THEN mp, OF conjI [OF toy_go_p1 conjI [OF gch gv]]]
  note c1 = T2 [THEN conjunct1]
  from T2 [THEN conjunct2, THEN mp, OF conjI [OF gv' tu]]
  have c2: "map_option (\<lambda>g. map_option c_Authenticated (go_connections g ''p1''))
        (go_handleAuthResponse toy_go_prims ''p1'' (toy_response ''kA'') toy_go_service)
      = Some (Some True)"
    by auto
  show ?thesis
    by (intro conjI) (rule toy_p1 c toy_bad b1 toy_good tl b2 toy_go_p1 gch gv c1 gv' tu c2)+
qed

subsection \<open>Failed authentication is silent\<close>

text \<open>
  When a response does not verify, or verifies under a key that is not in the trust
  store, the Node.js \<open>handleAuthResponse\<close> calls no action sender (an exception in it is
  caught and logged), and the Go \<open>handleAuthResponse\<close>, when it returns, has written on no
  data channel.
\<close>

lemma go_handleAuthResponse_failure_channels:
  assumes "go_connections g peerID = Some gc"
    and "\<not> go_response_verified G gc msg \<or> trustedUsers g (go_str msg ''publicKey'') = None"
    and "go_handleAuthResponse G peerID msg g = Some g'"
  shows "dataChannels g' = dataChannels g"
proof (cases "go_response_verified G gc msg")
  case False
  with assms go_handleAuthResponse_not_verified [of g peerID gc G msg] show ?thesis by auto
next
  case True
  with assms show ?thesis by (auto simp: go_handleAuthResponse_untrusted)
qed

text \<open>
  Claim C9 says that an authentication failure shows to the peer only as the absence of
  a transition and of further messages. In the Go service a response whose public key
  does not decode to a key of the right length makes \<open>ed25519.Verify\<close> panic, and
  nothing recovers the panic: the handler does not return and the service goes down
  with every connection. In the instance, \<open>p1\<close> has an outstanding challenge and sends
  \<open>{"type": "response"}\<close>: signature and public key are the empty string, the response
  does not verify, and the step of the service is the panic. The Node.js service, on the
  same message, catches the exception and stays as it is, having sent nothing.
\<close>

theorem auth_failure_panics_go_service:
  "go_connections toy_go_service ''p1'' = Some (go_conn0 ''connected'' False)
   \<and> c_Challenge (go_conn0 ''connected'' False) = Some (map of_char ''ch'')
   \<and> go_str (JObj [(''type'', JStr ''response'')]) ''publicKey'' = []
   \<and> \<not> go_response_verified toy_go_prims (go_conn0 ''connected'' False)
         (JObj [(''type'', JStr ''response'')])
   \<and> go_handleAuthResponse toy_go_prims ''p1'' (JObj [(''type'', JStr ''response'')])
        toy_go_service = None
   \<and> go_step toy_go_prims (OnMessage ''p1'' (JsonText (JObj [(''type'', JStr ''response'')])))
        toy_go_service = None
   \<and> go_run toy_go_prims
        [OnMessage ''p1'' (JsonText (JObj [(''type'', JStr ''response'')])), AddEntry ''x'' 9]
        toy_go_service = None
   \<and> \<not> response_verified toy_prims (conn0 Challenging) (JObj [(''type'', JStr ''response'')])
   \<and> step toy_prims (Response (JObj [(''type'', JStr ''response'')]) ''p1'') toy_service
        = toy_service"
proof -
  have a: "go_handleAuthResponse toy_go_prims ''p1'' (JObj [(''type'', JStr ''response'')])
        toy_go_service = None"
    by (simp add: go_handleAuthResponse_def toy_go_service_def go_conn0_def go_str_def
        toy_go_prims_def Let_def)
  have b: "go_step toy_go_prims (OnMessage ''p1'' (JsonText (JObj [(''type'', JStr ''response'')])))
        toy_go_service = None"
    by (simp add: handleDataChannelMessage_JObj go_str_def a)
  have c: "\<not> go_response_verified toy_go_prims (go_conn0 ''connected'' False)
         (JObj [(''type'', JStr ''response'')])"
    by (simp add: go_response_verified_def go_conn0_def go_str_def toy_go_prims_def)
  have d: "\<not> response_verified toy_prims (conn0 Challenging) (JObj [(''type'', JStr ''response'')])"
    by (simp add: response_verified_def toy_prims_def)
  have e: "step toy_prims (Response (JObj [(''type'', JStr ''response'')]) ''p1'') toy_service
        = toy_service"
    using handleAuthResponse_not_verified [OF toy_p1 d] by simp
  from a b c d e toy_go_p1 show ?thesis by (simp add: go_conn0_def go_str_def)
qed

subsection \<open>Trust gating\<close>






subsection \<open>Entries on request, in order\<close>




subsection \<open>The payload of an entry message\<close>




subsection \<open>The log is append-only\<close>

text \<open>
  Claim C7. An append (\<open>POST /api/entries\<close>, the \<open>add_entry\<close> command, \<open>handleAddEntry\<close>
  in Go) puts one new entry after the stored ones, which are unchanged; the new entry
  carries the time of the call and the id \<open>length + 1\<close>. For a log numbered
  \<open>1, 2, \<dots>\<close>, which is what the service creates at its first start and what every
  event preserves, that id is greater than every id in the log. No event of either
  service removes or changes a stored entry: the log after an event is the log before it
  followed by at most new entries.
\<close>

theorem append_assigns_next_id:
  "entries (fst (postEntry P now c s)) =
     entries s @ [\<lparr>entry_id = int (length (entries s)) + 1, content = c, timestamp = now,
                   author = ''Admin''\<rparr>]
   \<and> go_entries (handleAddEntry G now c g) =
     go_entries g @ [\<lparr>entry_id = int (length (go_entries g)) + 1, content = c, timestamp = now,
                      author = ''Admin''\<rparr>]
   \<and> (ids_sequential es \<longrightarrow>
        (\<forall>x\<in>set es. entry_id x < int (length es) + 1)
        \<and> ids_sequential (es @ [\<lparr>entry_id = int (length es) + 1, content = c, timestamp = now,
                                   author = ''Admin''\<rparr>]))
   \<and> ids_sequential (initialEntries now)
   \<and> (\<exists>ys. entries (step P ev s) = entries s @ ys)
   \<and> (ids_sequential (entries s) \<longrightarrow> ids_sequential (entries (step P ev s)))
   \<and> (go_step G gev g = Some g' \<longrightarrow>
        (\<exists>ys. go_entries g' = go_entries g @ ys)
        \<and> (ids_sequential (go_entries g) \<longrightarrow> ids_sequential (go_entries g')))"
proof (intro conjI impI)
  show "entries (fst (postEntry P now c s)) =
     entries s @ [\<lparr>entry_id = int (length (entries s)) + 1, content = c, timestamp = now,
                   author = ''Admin''\<rparr>]"
    by (rule postEntry_entries)
  show "go_entries (handleAddEntry G now c g) =
     go_entries g @ [\<lparr>entry_id = int (length (go_entries g)) + 1, content = c, timestamp = now,
                      author = ''Admin''\<rparr>]"
    by (simp add: handleAddEntry_def go_broadcastEntry_def Let_def)
  show "ids_sequential (initialEntries now)"
    by (simp add: ids_sequential_def initialEntries_def)
  show "\<exists>ys. entries (step P ev s) = entries s @ ys"
    using step_entries [of P ev s] by auto
next
  assume "ids_sequential es"
  then show "\<forall>x\<in>set es. entry_id x < int (length es) + 1"
    using ids_sequential_bound by blast
next
  assume "ids_sequential es"
  then show "ids_sequential (es @ [\<lparr>entry_id = int (length es) + 1, content = c, timestamp = now,
                                   author = ''Admin''\<rparr>])"
    by (rule ids_sequential_snoc)
next
  assume "ids_sequential (entries s)"
  then show "ids_sequential (entries (step P ev s))"
    using step_entries [of P ev s] by (auto simp: ids_sequential_snoc)
next
  assume "go_step G gev g = Some g'"
  then show "\<exists>ys. go_entries g' = go_entries g @ ys"
    using go_step_entries [of G gev g g'] by auto
next
  assume "go_step G gev g = Some g'" and "ids_sequential (go_entries g)"
  then show "ids_sequential (go_entries g')"
    using go_step_entries [of G gev g g'] by (auto simp: ids_sequential_snoc)
qed

theorem append_assigns_next_id_witness:
  "ids_sequential (entries toy_service)
   \<and> entry_id (toy_entry 1) < 3 \<and> entry_id (toy_entry 2) < 3
   \<and> entries (fst (postEntry toy_prims 200 ''new'' toy_service)) =
       [toy_entry 1, toy_entry 2,
        \<lparr>entry_id = 3, content = ''new'', timestamp = 200, author = ''Admin''\<rparr>]
   \<and> ids_sequential (entries (step toy_prims (PostEntry ''new'' 200) toy_service))
   \<and> go_step toy_go_prims (AddEntry ''new'' 200) toy_go_service
        = Some (handleAddEntry toy_go_prims 200 ''new'' toy_go_service)
   \<and> ids_sequential (go_entries toy_go_service)
   \<and> ids_sequential (go_entries (handleAddEntry toy_go_prims 200 ''new'' toy_go_service))"
proof -
  have e: "entries toy_service = [toy_entry 1, toy_entry 2]" by (simp add: toy_service_def)
  have ge: "go_entries toy_go_service = [toy_entry 1, toy_entry 2]"
    by (simp add: toy_go_service_def)
  have i: "ids_sequential (entries toy_service)"
    by (simp add: e ids_sequential_def toy_entry_def upt_rec)
  have gi: "ids_sequential (go_entries toy_go_service)"
    by (simp add: ge ids_sequential_def toy_entry_def upt_rec)
  have gs: "go_step toy_go_prims (AddEntry ''new'' 200) toy_go_service
        = Some (handleAddEntry toy_go_prims 200 ''new'' toy_go_service)"
    by simp
  note T = append_assigns_next_id [where P = toy_prims and now = 200 and c = "''new''"
      and s = toy_service and es = "entries toy_service" and ev = "PostEntry ''new'' 200"
      and G = toy_go_prims and gev = "AddEntry ''new'' 200" and g = toy_go_service
      and g' = "handleAddEntry toy_go_prims 200 ''new'' toy_go_service"]
  from T i have a: "entry_id (toy_entry 1) < 3 \<and> entry_id (toy_entry 2) < 3" by (simp add: e)
  from T have b: "entries (fst (postEntry toy_prims 200 ''new'' toy_service)) =
       [toy_entry 1, toy_entry 2,
        \<lparr>entry_id = 3, content = ''new'', timestamp = 200, author = ''Admin''\<rparr>]"
    by (simp add: e)
  from T i have c: "ids_sequential (entries (step toy_prims (PostEntry ''new'' 200) toy_service))"
    by blast
  from T gs gi have d: "ids_sequential (go_entries (handleAddEntry toy_go_prims 200 ''new'' toy_go_service))"
    by blast
  from i a b c gs gi d show ?thesis by simp
qed

subsection \<open>Adding to the trust store\<close>

text \<open>
  Claim C8 says that performing the same add twice leaves the store as performing it
  once. Each add stamps the record with the time of the call, so the second add, made
  at time 2, leaves a record that differs from the one the first add, at time 1, left.
\<close>

theorem trust_add_twice_counterexample:
  "map_option trustedAt (map_of (trustedKeys (fst (postTrusted 1 toy_body toy_service))) ''kA'')
     = Some 1
   \<and> map_option trustedAt
        (map_of (trustedKeys (fst (postTrusted 2 toy_body (fst (postTrusted 1 toy_body toy_service)))))
           ''kA'') = Some 2
   \<and> fst (postTrusted 2 toy_body (fst (postTrusted 1 toy_body toy_service)))
       \<noteq> fst (postTrusted 1 toy_body toy_service)"
proof -
  have a: "map_option trustedAt
      (map_of (trustedKeys (fst (postTrusted 1 toy_body toy_service))) ''kA'') = Some 1"
    by (simp add: postTrusted_trustedKeys update_conv toy_body_def stored_info_def)
  have b: "map_option trustedAt
        (map_of (trustedKeys (fst (postTrusted 2 toy_body (fst (postTrusted 1 toy_body toy_service)))))
           ''kA'') = Some 2"
    by (simp add: postTrusted_trustedKeys update_conv toy_body_def stored_info_def)
  from a b have "fst (postTrusted 2 toy_body (fst (postTrusted 1 toy_body toy_service)))
       \<noteq> fst (postTrusted 1 toy_body toy_service)"
    by auto
  with a b show ?thesis by simp
qed

text \<open>
  Claim C8 as amended. The add is an upsert keyed by the signing public key: the
  record under the key becomes the one of the request (its box key included), every
  other key keeps its record, and the store does not grow when the key was present.
  Adding the same request twice leaves the store as adding it once at the time of the
  second add (and exactly as it was after the first when the clock has not moved): only
  \<open>trustedAt\<close> is stamped again. The same holds of \<open>handleAddTrusted\<close> in the Go service.
\<close>

theorem trust_add_is_upsert:
  "map_of (trustedKeys (fst (postTrusted now b s))) (tb_publicKey b) = Some (stored_info now b)
   \<and> boxPublicKey (stored_info now b) = tb_boxPublicKey b
   \<and> trustedAt (stored_info now b) = now
   \<and> (k \<noteq> tb_publicKey b \<longrightarrow>
        map_of (trustedKeys (fst (postTrusted now b s))) k = map_of (trustedKeys s) k)
   \<and> (tb_publicKey b \<in> fst ` set (trustedKeys s) \<longrightarrow>
        length (trustedKeys (fst (postTrusted now b s))) = length (trustedKeys s))
   \<and> fst (postTrusted now b (fst (postTrusted now b s))) = fst (postTrusted now b s)
   \<and> fst (postTrusted t2 b (fst (postTrusted t1 b s))) = fst (postTrusted t2 b s)
   \<and> trustedUsers (handleAddTrusted now u g) (tu_PublicKey u) =
        Some (u\<lparr>tu_Permissions :=
                  (case tu_Permissions u of None \<Rightarrow> Some [''read''] | Some ps \<Rightarrow> Some ps),
                tu_TrustedAt := now\<rparr>)
   \<and> (k \<noteq> tu_PublicKey u \<longrightarrow> trustedUsers (handleAddTrusted now u g) k = trustedUsers g k)
   \<and> (tu_PublicKey u \<in> dom (trustedUsers g) \<longrightarrow>
        dom (trustedUsers (handleAddTrusted now u g)) = dom (trustedUsers g))
   \<and> handleAddTrusted t2 u (handleAddTrusted t1 u g) = handleAddTrusted t2 u g"
proof (intro conjI impI)
  show "map_of (trustedKeys (fst (postTrusted now b s))) (tb_publicKey b) = Some (stored_info now b)"
    by (simp add: postTrusted_trustedKeys update_conv)
  show "boxPublicKey (stored_info now b) = tb_boxPublicKey b" by (simp add: stored_info_def)
  show "trustedAt (stored_info now b) = now" by (simp add: stored_info_def)
  show "fst (postTrusted now b (fst (postTrusted now b s))) = fst (postTrusted now b s)"
    by (rule postTrusted_twice)
  show "fst (postTrusted t2 b (fst (postTrusted t1 b s))) = fst (postTrusted t2 b s)"
    by (rule postTrusted_twice)
  show "trustedUsers (handleAddTrusted now u g) (tu_PublicKey u) =
        Some (u\<lparr>tu_Permissions :=
                  (case tu_Permissions u of None \<Rightarrow> Some [''read''] | Some ps \<Rightarrow> Some ps),
                tu_TrustedAt := now\<rparr>)"
    by (simp add: handleAddTrusted_def Let_def)
  show "handleAddTrusted t2 u (handleAddTrusted t1 u g) = handleAddTrusted t2 u g"
    by (simp add: handleAddTrusted_def Let_def split: option.splits)
next
  assume "k \<noteq> tb_publicKey b"
  then show "map_of (trustedKeys (fst (postTrusted now b s))) k = map_of (trustedKeys s) k"
    by (simp add: postTrusted_trustedKeys update_conv)
next
  assume "tb_publicKey b \<in> fst ` set (trustedKeys s)"
  then show "length (trustedKeys (fst (postTrusted now b s))) = length (trustedKeys s)"
    by (simp add: postTrusted_trustedKeys length_update)
next
  assume "k \<noteq> tu_PublicKey u"
  then show "trustedUsers (handleAddTrusted now u g) k = trustedUsers g k"
    by (simp add: handleAddTrusted_def Let_def)
next
  assume "tu_PublicKey u \<in> dom (trustedUsers g)"
  then show "dom (trustedUsers (handleAddTrusted now u g)) = dom (trustedUsers g)"
    by (auto simp: handleAddTrusted_def Let_def)
qed

theorem trust_add_is_upsert_witness:
  "tb_publicKey toy_body \<in> fst ` set (trustedKeys toy_service)
   \<and> map_of (trustedKeys toy_service) ''kA'' =
        Some \<lparr>boxPublicKey = ''bA'', name = ''Ann'', permissions = [''read''], trustedAt = 5\<rparr>
   \<and> map_of (trustedKeys (fst (postTrusted 9 toy_body toy_service))) ''kA'' =
        Some \<lparr>boxPublicKey = ''bA2'', name = ''Ann'', permissions = [''read''], trustedAt = 9\<rparr>
   \<and> length (trustedKeys (fst (postTrusted 9 toy_body toy_service))) = 1
   \<and> ''kB'' \<noteq> tb_publicKey toy_body
   \<and> map_of (trustedKeys (fst (postTrusted 9 toy_body toy_service))) ''kB'' = None
   \<and> tu_PublicKey toy_user \<in> dom (trustedUsers toy_go_service)
   \<and> dom (trustedUsers (handleAddTrusted 9 toy_user toy_go_service)) = {''kA''}"
proof -
  have h1: "tb_publicKey toy_body \<in> fst ` set (trustedKeys toy_service)"
    by (simp add: toy_body_def toy_service_def)
  have h2: "''kB'' \<noteq> tb_publicKey toy_body" by (simp add: toy_body_def)
  have h3: "tu_PublicKey toy_user \<in> dom (trustedUsers toy_go_service)"
    by (simp add: toy_user_def toy_go_service_def)
  note T = trust_add_is_upsert [where now = 9 and b = toy_body and s = toy_service
      and k = "''kB''" and u = toy_user and g = toy_go_service]
  from T have a: "map_of (trustedKeys (fst (postTrusted 9 toy_body toy_service))) ''kA'' =
        Some \<lparr>boxPublicKey = ''bA2'', name = ''Ann'', permissions = [''read''], trustedAt = 9\<rparr>"
    by (simp add: toy_body_def stored_info_def)
  from T h1 have b: "length (trustedKeys (fst (postTrusted 9 toy_body toy_service))) = 1"
    by (simp add: toy_service_def)
  from T h2 have c: "map_of (trustedKeys (fst (postTrusted 9 toy_body toy_service))) ''kB'' = None"
    by (simp add: toy_service_def)
  from T h3 have d: "dom (trustedUsers (handleAddTrusted 9 toy_user toy_go_service)) = {''kA''}"
    by (simp add: toy_go_service_def)
  from h1 h2 h3 a b c d toy_kA show ?thesis by simp
qed

subsection \<open>The room identifier\<close>

text \<open>
  Claim C5. \<open>generateRoomId\<close> is the first 20 characters of the base64 of the hash of
  \<open>salt:base64(signing public key)\<close>. It depends on the service through the salt and the
  signing public key only, so two services that agree on these compute the same
  identifier, whatever their secret keys and the rest of their state; it does not fail
  once the identity is loaded; and it has exactly 20 characters when the encoded hash
  has at least 20 (the base64 of a SHA-512 hash has 88). The Go \<open>generateRoomID\<close> is the same
  function with SHA-256.
\<close>

theorem room_id_function_of_salt_and_key:
  "(identity s = Some i \<longrightarrow>
      generateRoomId P s =
        Some (take 20 (encodeBase64 P (hash P (room_material P (roomSalt s) (publicKey (keyPair i)))))))
   \<and> (identity s = Some i \<and> identity s' = Some i'
       \<and> publicKey (keyPair i) = publicKey (keyPair i') \<and> roomSalt s = roomSalt s'
      \<longrightarrow> generateRoomId P s = generateRoomId P s' \<and> generateRoomId P s \<noteq> None)
   \<and> (identity s = Some i
       \<and> 20 \<le> length (encodeBase64 P (hash P (room_material P (roomSalt s) (publicKey (keyPair i)))))
      \<longrightarrow> (\<exists>r. generateRoomId P s = Some r \<and> length r = 20))
   \<and> (publicKey (keyPair (go_identity g)) = publicKey (keyPair (go_identity g'))
       \<and> go_roomSalt g = go_roomSalt g'
      \<longrightarrow> generateRoomID G g = generateRoomID G g')
   \<and> (20 \<le> length (EncodeToString G (sha256_Sum256 G (map of_char (go_roomSalt g @ '':'' @
               EncodeToString G (publicKey (keyPair (go_identity g)))))))
      \<longrightarrow> generateRoomID G g =
            Some (take 20 (EncodeToString G (sha256_Sum256 G (map of_char (go_roomSalt g @ '':'' @
               EncodeToString G (publicKey (keyPair (go_identity g)))))))))"
  by (auto simp: generateRoomId_def getPublicKeyString_def room_material_def generateRoomID_def
      Let_def)

theorem room_id_function_of_salt_and_key_witness:
  "identity toy_service = Some toy_identity
   \<and> identity (toy_service\<lparr>entries := [], connections := [], trustedKeys := [],
         identity := Some (toy_identity\<lparr>keyPair := \<lparr>publicKey = [1, 2], secretKey = [9, 9, 9]\<rparr>\<rparr>)\<rparr>)
       = Some (toy_identity\<lparr>keyPair := \<lparr>publicKey = [1, 2], secretKey = [9, 9, 9]\<rparr>\<rparr>)
   \<and> publicKey (keyPair toy_identity)
       = publicKey (keyPair (toy_identity\<lparr>keyPair := \<lparr>publicKey = [1, 2], secretKey = [9, 9, 9]\<rparr>\<rparr>))
   \<and> generateRoomId toy_prims toy_service =
       generateRoomId toy_prims (toy_service\<lparr>entries := [], connections := [], trustedKeys := [],
         identity := Some (toy_identity\<lparr>keyPair := \<lparr>publicKey = [1, 2], secretKey = [9, 9, 9]\<rparr>\<rparr>)\<rparr>)
   \<and> generateRoomId toy_prims toy_service \<noteq> None
   \<and> 20 \<le> length (encodeBase64 toy_prims (hash toy_prims
              (room_material toy_prims (roomSalt toy_service) (publicKey (keyPair toy_identity)))))
   \<and> length (the (generateRoomId toy_prims toy_service)) = 20"
proof -
  let ?s' = "toy_service\<lparr>entries := [], connections := [], trustedKeys := [],
         identity := Some (toy_identity\<lparr>keyPair := \<lparr>publicKey = [1, 2], secretKey = [9, 9, 9]\<rparr>\<rparr>)\<rparr>"
  let ?i' = "toy_identity\<lparr>keyPair := \<lparr>publicKey = [1, 2], secretKey = [9, 9, 9]\<rparr>\<rparr>"
  have h1: "identity ?s' = Some ?i'" by simp
  have h2: "publicKey (keyPair toy_identity) = publicKey (keyPair ?i')"
    by (simp add: toy_identity_def)
  have h3: "roomSalt toy_service = roomSalt ?s'" by simp
  have h4: "20 \<le> length (encodeBase64 toy_prims (hash toy_prims
              (room_material toy_prims (roomSalt toy_service) (publicKey (keyPair toy_identity)))))"
    by (simp add: toy_prims_def)
  note T = room_id_function_of_salt_and_key [where s = toy_service and i = toy_identity
      and s' = ?s' and i' = ?i' and P = toy_prims]
  from T toy_identity_Some h1 h2 h3
  have a: "generateRoomId toy_prims toy_service = generateRoomId toy_prims ?s'
      \<and> generateRoomId toy_prims toy_service \<noteq> None"
    by blast
  from T toy_identity_Some h4
  have "\<exists>r. generateRoomId toy_prims toy_service = Some r \<and> length r = 20" by blast
  then have b: "length (the (generateRoomId toy_prims toy_service)) = 20" by auto
  from toy_identity_Some h1 h2 a h4 b show ?thesis by blast
qed

subsection \<open>Loading a corrupt identity\<close>

text \<open>
  Claim C4 says that \<open>loadIdentity\<close> fails on identity material that exists but is
  corrupt, and never generates a fresh identity over it. The Node.js service does the
  opposite: started on a data directory whose \<open>identity.json\<close> does not parse,
  \<open>loadIdentity\<close> returns without an exception, the identity is a fresh one drawn from
  the random source, and \<open>identity.json\<close> holds the fresh identity in place of the old
  text.
\<close>

theorem corrupt_identity_is_regenerated:
  "files (fs corrupt_start) ''identity.json'' = Some (Unparsable ''{ publicKey: MDEy'')
   \<and> snd (loadIdentity toy_prims 9 corrupt_start) = None
   \<and> identity (fst (loadIdentity toy_prims 9 corrupt_start))
       = Some (fresh_identity toy_prims (rand corrupt_start))
   \<and> files (fs (fst (loadIdentity toy_prims 9 corrupt_start))) ''identity.json''
       = Some (JsonText (identity_json toy_prims 9 (fresh_identity toy_prims (rand corrupt_start))))
   \<and> publicKey (keyPair (fresh_identity toy_prims (rand corrupt_start))) = [0, 1]"
proof -
  have r: "readIdentity toy_prims (fs corrupt_start) = None"
    by (simp add: readIdentity_def readFile_def corrupt_start_def)
  have w: "writable (fs corrupt_start)" by (simp add: corrupt_start_def)
  have f: "files (fs corrupt_start) ''identity.json'' = Some (Unparsable ''{ publicKey: MDEy'')"
    by (simp add: corrupt_start_def)
  have p: "publicKey (keyPair (fresh_identity toy_prims (rand corrupt_start))) = [0, 1]"
    by (simp add: fresh_identity_def randomBytes_def toy_prims_def corrupt_start_def
        toy_service_def upt_rec)
  from f p show ?thesis
    by (simp add: loadIdentity_regenerates [OF r w])
qed

end
